theory Spec2Isabelle
  imports Complex_Main "HOL-Library.Word"
begin

section \<open>Machine types\<close>

text \<open>
  The event counters are \<^verbatim>\<open>std::atomic<size_t>\<close> and \<^verbatim>\<open>size_t\<close>. The firmware is built
  for the Particle Tracker (a 32-bit ARM Cortex-M4), where \<^verbatim>\<open>size_t\<close> is an unsigned
  32-bit integer: \<open>++\<close> and \<open>-\<close> wrap around modulo \<open>2 ^ 32\<close>.

  Readings, thresholds and hysteresis are \<^verbatim>\<open>double\<close> in the source: IEEE 754 binary64,
  which the target computes in software, rounding to nearest with ties to even. They are
  modelled by the type \<open>double\<close> below, with the comparisons and the rounded \<open>+\<close> and
  \<open>-\<close> of binary64.
\<close>

type_synonym size_t = "32 word"

section \<open>Binary64 arithmetic\<close>

text \<open>
  A \<^verbatim>\<open>double\<close> is a finite value \<open>m * 2 ^ e\<close> (\<open>Finite m e\<close>, with integer \<open>m\<close> and
  \<open>e\<close>), an infinity or a NaN. The binary64 values are the finite ones with
  \<open>\<bar>m\<bar> < 2 ^ 53\<close> and \<open>- 1074 \<le> e \<le> 971\<close>; one value has several pairs \<open>(m, e)\<close>,
  which the comparisons do not tell apart. The two zeros of binary64 compare equal and are
  one value here. For instance 45.0 is \<open>Finite 45 0\<close> and \<open>2 ^ - 50\<close> is
  \<open>Finite 1 (- 50)\<close>.
\<close>

datatype double = Finite int int | PlusInf | MinusInf | NaN

text \<open>\<open>m * 2 ^ e\<close> in units of \<open>2 ^ e0\<close>, for \<open>e0 \<le> e\<close>.\<close>

definition scaled :: "int \<Rightarrow> int \<Rightarrow> int \<Rightarrow> int" where
  "scaled m e e0 = m * 2 ^ nat (e - e0)"

text \<open>
  The comparisons \<^verbatim>\<open><\<close>, \<^verbatim>\<open><=\<close>, \<^verbatim>\<open>>\<close>, \<^verbatim>\<open>>=\<close>: exact on the values, and false
  whenever an operand is a NaN.
\<close>

fun dlt :: "double \<Rightarrow> double \<Rightarrow> bool" where
  "dlt (Finite m1 e1) (Finite m2 e2) = (scaled m1 e1 (min e1 e2) < scaled m2 e2 (min e1 e2))"
| "dlt (Finite m1 e1) PlusInf = True"
| "dlt MinusInf (Finite m2 e2) = True"
| "dlt MinusInf PlusInf = True"
| "dlt _ _ = False"

fun dle :: "double \<Rightarrow> double \<Rightarrow> bool" where
  "dle (Finite m1 e1) (Finite m2 e2) = (scaled m1 e1 (min e1 e2) \<le> scaled m2 e2 (min e1 e2))"
| "dle (Finite m1 e1) PlusInf = True"
| "dle MinusInf (Finite m2 e2) = True"
| "dle MinusInf PlusInf = True"
| "dle PlusInf PlusInf = True"
| "dle MinusInf MinusInf = True"
| "dle _ _ = False"

definition dgt :: "double \<Rightarrow> double \<Rightarrow> bool" where
  "dgt a b = dlt b a"

definition dge :: "double \<Rightarrow> double \<Rightarrow> bool" where
  "dge a b = dle b a"

text \<open>
  Rounding the exact value \<open>m * 2 ^ e\<close> to binary64. \<open>excess n\<close> is the number of low bits
  to drop for \<open>n\<close> to fit the 53-bit significand; the exponent may not go below that of
  the subnormals, \<open>- 1074\<close>. \<open>round_even m k\<close> is \<open>m / 2 ^ k\<close> rounded to the nearest
  integer, a tie going to the even one. A result of magnitude \<open>2 ^ 1024\<close> or more is an
  infinity.
\<close>

fun excess :: "nat \<Rightarrow> nat" where
  "excess n = (if n < 2 ^ 53 then 0 else Suc (excess (n div 2)))"

definition round_even :: "int \<Rightarrow> nat \<Rightarrow> int" where
  "round_even m k =
     (let q = m div 2 ^ k; r = m mod 2 ^ k
      in if 2 * r < 2 ^ k then q
         else if 2 * r > 2 ^ k then q + 1
         else if even q then q else q + 1)"

definition to_double :: "int \<Rightarrow> int \<Rightarrow> double" where
  "to_double m e =
     (let k = max (excess (nat \<bar>m\<bar>)) (nat (- 1074 - e));
          q = round_even m k;
          e' = e + int k
      in if 0 \<le> e' \<and> 2 ^ 1024 \<le> \<bar>q\<bar> * 2 ^ nat e'
         then (if 0 < q then PlusInf else MinusInf)
         else Finite q e')"

text \<open>The operators \<^verbatim>\<open>+\<close> and \<^verbatim>\<open>-\<close>: the exact sum or difference, rounded.\<close>

fun dadd :: "double \<Rightarrow> double \<Rightarrow> double" where
  "dadd (Finite m1 e1) (Finite m2 e2) =
     to_double (scaled m1 e1 (min e1 e2) + scaled m2 e2 (min e1 e2)) (min e1 e2)"
| "dadd NaN _ = NaN"
| "dadd _ NaN = NaN"
| "dadd PlusInf MinusInf = NaN"
| "dadd MinusInf PlusInf = NaN"
| "dadd PlusInf _ = PlusInf"
| "dadd MinusInf _ = MinusInf"
| "dadd _ PlusInf = PlusInf"
| "dadd _ MinusInf = MinusInf"

fun dsub :: "double \<Rightarrow> double \<Rightarrow> double" where
  "dsub (Finite m1 e1) (Finite m2 e2) =
     to_double (scaled m1 e1 (min e1 e2) - scaled m2 e2 (min e1 e2)) (min e1 e2)"
| "dsub NaN _ = NaN"
| "dsub _ NaN = NaN"
| "dsub PlusInf PlusInf = NaN"
| "dsub MinusInf MinusInf = NaN"
| "dsub PlusInf _ = PlusInf"
| "dsub MinusInf _ = MinusInf"
| "dsub _ PlusInf = MinusInf"
| "dsub _ MinusInf = PlusInf"

text \<open>The real number that \<open>Finite m e\<close> stands for.\<close>

definition finite_value :: "int \<Rightarrow> int \<Rightarrow> real" where
  "finite_value m e = of_int m * 2 powi e"

section \<open>Data model of \<^verbatim>\<open>environment.h\<close> and \<^verbatim>\<open>environment.cpp\<close>\<close>

datatype EnvState = UNKNOWN | NORMAL | OUTSIDE_LIMIT | INSIDE_LIMIT

record Environment =
  Temperature :: double
  Humidity :: double

text \<open>\<^verbatim>\<open>struct ConfigData\<close>, the type of the global \<^verbatim>\<open>_environmentConfig\<close>.\<close>

record ConfigData =
  highThreshold :: double
  highEnable :: bool
  highLatch :: bool
  lowThreshold :: double
  lowEnable :: bool
  lowLatch :: bool
  hysteresis :: double
  humhighThreshold :: double
  humhighEnable :: bool
  humhighLatch :: bool
  humlowThreshold :: double
  humlowEnable :: bool
  humlowLatch :: bool
  humhysteresis :: double

text \<open>
  The file-level \<^verbatim>\<open>static\<close> variables of \<^verbatim>\<open>environment.cpp\<close>, in the order of their
  declaration. The four latch flags carry the same names as the latch-mode fields of
  \<^verbatim>\<open>ConfigData\<close>, as they do in the source; the configuration's fields are written
  \<open>ConfigData.highLatch\<close> and so on, as the source writes \<^verbatim>\<open>_environmentConfig.highLatch\<close>.
\<close>

record Statics =
  highState :: EnvState
  highEvents :: size_t
  highEventsLast :: size_t
  highLatch :: bool
  humhighState :: EnvState
  humhighEvents :: size_t
  humhighEventsLast :: size_t
  humhighLatch :: bool
  lowState :: EnvState
  lowEvents :: size_t
  lowEventsLast :: size_t
  lowLatch :: bool
  humlowState :: EnvState
  humlowEvents :: size_t
  humlowEventsLast :: size_t
  humlowLatch :: bool

text \<open>The initialiser of \<^verbatim>\<open>_environmentConfig\<close>, with the constants of \<^verbatim>\<open>environment.h\<close>.\<close>

definition ExternalTemperatureHighDefault :: double where
  "ExternalTemperatureHighDefault = Finite 45 0"

definition ExternalTemperatureLowDefault :: double where
  "ExternalTemperatureLowDefault = Finite 25 0"

definition ExternalTemperatureHysteresisDefault :: double where
  "ExternalTemperatureHysteresisDefault = Finite 5 0"

definition ExternalHumidityHighDefault :: double where
  "ExternalHumidityHighDefault = Finite 95 0"

definition ExternalHumidityLowDefault :: double where
  "ExternalHumidityLowDefault = Finite 25 0"

definition ExternalHumidityHysteresisDefault :: double where
  "ExternalHumidityHysteresisDefault = Finite 5 0"

definition environmentConfig_init :: ConfigData where
  "environmentConfig_init =
     \<lparr> highThreshold = ExternalTemperatureHighDefault,
       highEnable = False,
       ConfigData.highLatch = True,
       lowThreshold = ExternalTemperatureLowDefault,
       lowEnable = False,
       ConfigData.lowLatch = True,
       hysteresis = ExternalTemperatureHysteresisDefault,
       humhighThreshold = ExternalHumidityHighDefault,
       humhighEnable = False,
       ConfigData.humhighLatch = True,
       humlowThreshold = ExternalHumidityLowDefault,
       humlowEnable = False,
       ConfigData.humlowLatch = True,
       humhysteresis = ExternalHumidityHysteresisDefault \<rparr>"

text \<open>The initialisers of the static variables.\<close>

definition statics_init :: Statics where
  "statics_init =
     \<lparr> highState = NORMAL, highEvents = 0, highEventsLast = 0, highLatch = False,
       humhighState = NORMAL, humhighEvents = 0, humhighEventsLast = 0, humhighLatch = False,
       lowState = NORMAL, lowEvents = 0, lowEventsLast = 0, lowLatch = False,
       humlowState = NORMAL, humlowEvents = 0, humlowEventsLast = 0, humlowLatch = False \<rparr>"

section \<open>The event accessors\<close>

text \<open>
  Each accessor reads the counter, subtracts the last snapshot, stores the snapshot and
  returns \<^verbatim>\<open>(latch mode) ? latch flag : eventsCount\<close>; the conditional operator converts the
  \<^verbatim>\<open>bool\<close> to \<^verbatim>\<open>size_t\<close>. The model returns the value and the updated statics.
\<close>

definition environment_high_temperature_events :: "ConfigData \<Rightarrow> Statics \<Rightarrow> size_t \<times> Statics" where
  "environment_high_temperature_events cfg s =
     (let eventsCapture = highEvents s;
          eventsCount = eventsCapture - highEventsLast s;
          s' = s\<lparr>highEventsLast := eventsCapture\<rparr>
      in (if ConfigData.highLatch cfg then of_bool (highLatch s') else eventsCount, s'))"

definition environment_high_humidity_events :: "ConfigData \<Rightarrow> Statics \<Rightarrow> size_t \<times> Statics" where
  "environment_high_humidity_events cfg s =
     (let eventsCapture = humhighEvents s;
          eventsCount = eventsCapture - humhighEventsLast s;
          s' = s\<lparr>humhighEventsLast := eventsCapture\<rparr>
      in (if ConfigData.humhighLatch cfg then of_bool (humhighLatch s') else eventsCount, s'))"

definition environment_low_temperature_events :: "ConfigData \<Rightarrow> Statics \<Rightarrow> size_t \<times> Statics" where
  "environment_low_temperature_events cfg s =
     (let eventsCapture = lowEvents s;
          eventsCount = eventsCapture - lowEventsLast s;
          s' = s\<lparr>lowEventsLast := eventsCapture\<rparr>
      in (if ConfigData.lowLatch cfg then of_bool (lowLatch s') else eventsCount, s'))"

definition environment_low_humidity_events :: "ConfigData \<Rightarrow> Statics \<Rightarrow> size_t \<times> Statics" where
  "environment_low_humidity_events cfg s =
     (let eventsCapture = humlowEvents s;
          eventsCount = eventsCapture - humlowEventsLast s;
          s' = s\<lparr>humlowEventsLast := eventsCapture\<rparr>
      in (if ConfigData.humlowLatch cfg then of_bool (humlowLatch s') else eventsCount, s'))"

section \<open>\<^verbatim>\<open>evaluate_user_environment\<close>\<close>

text \<open>
  The function is four \<^verbatim>\<open>if (enable) switch (state)\<close> blocks in sequence. Each block is one
  definition here. \<^verbatim>\<open>case UNKNOWN\<close> assigns \<^verbatim>\<open>NORMAL\<close> and falls through into
  \<^verbatim>\<open>case NORMAL\<close>, so the body of \<^verbatim>\<open>case NORMAL\<close> is a definition of its own, entered
  from both.
\<close>

definition high_temperature_normal :: "ConfigData \<Rightarrow> Environment \<Rightarrow> Statics \<Rightarrow> Statics" where
  "high_temperature_normal cfg environment s =
     (if dge (Temperature environment) (highThreshold cfg)
      then s\<lparr>highEvents := highEvents s + 1, highLatch := True, highState := OUTSIDE_LIMIT\<rparr>
      else s)"

definition evaluate_high_temperature :: "ConfigData \<Rightarrow> Environment \<Rightarrow> Statics \<Rightarrow> Statics" where
  "evaluate_high_temperature cfg environment s =
     (if highEnable cfg then
        (case highState s of
           UNKNOWN \<Rightarrow> high_temperature_normal cfg environment (s\<lparr>highState := NORMAL\<rparr>)
         | NORMAL \<Rightarrow> high_temperature_normal cfg environment s
         | OUTSIDE_LIMIT \<Rightarrow>
             (if dlt (Temperature environment) (highThreshold cfg)
              then s\<lparr>highState := INSIDE_LIMIT\<rparr>
              else s)
         | INSIDE_LIMIT \<Rightarrow>
             (if dle (Temperature environment) (dsub (highThreshold cfg) (hysteresis cfg))
              then s\<lparr>highLatch := False, highState := NORMAL\<rparr>
              else if dge (Temperature environment) (highThreshold cfg)
              then s\<lparr>highState := OUTSIDE_LIMIT\<rparr>
              else s))
      else s)"

definition low_temperature_normal :: "ConfigData \<Rightarrow> Environment \<Rightarrow> Statics \<Rightarrow> Statics" where
  "low_temperature_normal cfg environment s =
     (if dle (Temperature environment) (lowThreshold cfg)
      then s\<lparr>lowEvents := lowEvents s + 1, lowLatch := True, lowState := OUTSIDE_LIMIT\<rparr>
      else s)"

definition evaluate_low_temperature :: "ConfigData \<Rightarrow> Environment \<Rightarrow> Statics \<Rightarrow> Statics" where
  "evaluate_low_temperature cfg environment s =
     (if lowEnable cfg then
        (case lowState s of
           UNKNOWN \<Rightarrow> low_temperature_normal cfg environment (s\<lparr>lowState := NORMAL\<rparr>)
         | NORMAL \<Rightarrow> low_temperature_normal cfg environment s
         | OUTSIDE_LIMIT \<Rightarrow>
             (if dgt (Temperature environment) (lowThreshold cfg)
              then s\<lparr>lowState := INSIDE_LIMIT\<rparr>
              else s)
         | INSIDE_LIMIT \<Rightarrow>
             (if dge (Temperature environment) (dadd (lowThreshold cfg) (hysteresis cfg))
              then s\<lparr>lowLatch := False, lowState := NORMAL\<rparr>
              else if dle (Temperature environment) (lowThreshold cfg)
              then s\<lparr>lowState := OUTSIDE_LIMIT\<rparr>
              else s))
      else s)"

definition high_humidity_normal :: "ConfigData \<Rightarrow> Environment \<Rightarrow> Statics \<Rightarrow> Statics" where
  "high_humidity_normal cfg environment s =
     (if dge (Humidity environment) (humhighThreshold cfg)
      then s\<lparr>humhighEvents := humhighEvents s + 1, humhighLatch := True,
             humhighState := OUTSIDE_LIMIT\<rparr>
      else s)"

definition evaluate_high_humidity :: "ConfigData \<Rightarrow> Environment \<Rightarrow> Statics \<Rightarrow> Statics" where
  "evaluate_high_humidity cfg environment s =
     (if humhighEnable cfg then
        (case humhighState s of
           UNKNOWN \<Rightarrow> high_humidity_normal cfg environment (s\<lparr>humhighState := NORMAL\<rparr>)
         | NORMAL \<Rightarrow> high_humidity_normal cfg environment s
         | OUTSIDE_LIMIT \<Rightarrow>
             (if dlt (Humidity environment) (humhighThreshold cfg)
              then s\<lparr>humhighState := INSIDE_LIMIT\<rparr>
              else s)
         | INSIDE_LIMIT \<Rightarrow>
             (if dle (Humidity environment) (dsub (humhighThreshold cfg) (humhysteresis cfg))
              then s\<lparr>humhighLatch := False, humhighState := NORMAL\<rparr>
              else if dge (Humidity environment) (humhighThreshold cfg)
              then s\<lparr>humhighState := OUTSIDE_LIMIT\<rparr>
              else s))
      else s)"

definition low_humidity_normal :: "ConfigData \<Rightarrow> Environment \<Rightarrow> Statics \<Rightarrow> Statics" where
  "low_humidity_normal cfg environment s =
     (if dle (Humidity environment) (humlowThreshold cfg)
      then s\<lparr>humlowEvents := humlowEvents s + 1, humlowLatch := True,
             humlowState := OUTSIDE_LIMIT\<rparr>
      else s)"

definition evaluate_low_humidity :: "ConfigData \<Rightarrow> Environment \<Rightarrow> Statics \<Rightarrow> Statics" where
  "evaluate_low_humidity cfg environment s =
     (if humlowEnable cfg then
        (case humlowState s of
           UNKNOWN \<Rightarrow> low_humidity_normal cfg environment (s\<lparr>humlowState := NORMAL\<rparr>)
         | NORMAL \<Rightarrow> low_humidity_normal cfg environment s
         | OUTSIDE_LIMIT \<Rightarrow>
             (if dgt (Humidity environment) (humlowThreshold cfg)
              then s\<lparr>humlowState := INSIDE_LIMIT\<rparr>
              else s)
         | INSIDE_LIMIT \<Rightarrow>
             (if dge (Humidity environment) (dadd (humlowThreshold cfg) (humhysteresis cfg))
              then s\<lparr>humlowLatch := False, humlowState := NORMAL\<rparr>
              else if dle (Humidity environment) (humlowThreshold cfg)
              then s\<lparr>humlowState := OUTSIDE_LIMIT\<rparr>
              else s))
      else s)"

definition evaluate_user_environment :: "ConfigData \<Rightarrow> Environment \<Rightarrow> Statics \<Rightarrow> Statics" where
  "evaluate_user_environment cfg environment s =
     evaluate_low_humidity cfg environment
       (evaluate_high_humidity cfg environment
         (evaluate_low_temperature cfg environment
           (evaluate_high_temperature cfg environment s)))"

section \<open>The four monitors, by name\<close>

text \<open>
  The source has no monitor type: a monitor is a group of four static variables and four
  configuration fields. To state a property of every monitor, the groups are named, with
  a projection for each variable and field of the group.
\<close>

datatype channel = TempHigh | TempLow | HumHigh | HumLow

fun is_high :: "channel \<Rightarrow> bool" where
  "is_high TempHigh = True"
| "is_high TempLow = False"
| "is_high HumHigh = True"
| "is_high HumLow = False"

fun chan_state :: "channel \<Rightarrow> Statics \<Rightarrow> EnvState" where
  "chan_state TempHigh s = highState s"
| "chan_state TempLow s = lowState s"
| "chan_state HumHigh s = humhighState s"
| "chan_state HumLow s = humlowState s"

fun chan_events :: "channel \<Rightarrow> Statics \<Rightarrow> size_t" where
  "chan_events TempHigh s = highEvents s"
| "chan_events TempLow s = lowEvents s"
| "chan_events HumHigh s = humhighEvents s"
| "chan_events HumLow s = humlowEvents s"

fun chan_last :: "channel \<Rightarrow> Statics \<Rightarrow> size_t" where
  "chan_last TempHigh s = highEventsLast s"
| "chan_last TempLow s = lowEventsLast s"
| "chan_last HumHigh s = humhighEventsLast s"
| "chan_last HumLow s = humlowEventsLast s"

fun chan_latch :: "channel \<Rightarrow> Statics \<Rightarrow> bool" where
  "chan_latch TempHigh s = highLatch s"
| "chan_latch TempLow s = lowLatch s"
| "chan_latch HumHigh s = humhighLatch s"
| "chan_latch HumLow s = humlowLatch s"

fun cfg_threshold :: "channel \<Rightarrow> ConfigData \<Rightarrow> double" where
  "cfg_threshold TempHigh cfg = highThreshold cfg"
| "cfg_threshold TempLow cfg = lowThreshold cfg"
| "cfg_threshold HumHigh cfg = humhighThreshold cfg"
| "cfg_threshold HumLow cfg = humlowThreshold cfg"

fun cfg_enable :: "channel \<Rightarrow> ConfigData \<Rightarrow> bool" where
  "cfg_enable TempHigh cfg = highEnable cfg"
| "cfg_enable TempLow cfg = lowEnable cfg"
| "cfg_enable HumHigh cfg = humhighEnable cfg"
| "cfg_enable HumLow cfg = humlowEnable cfg"

fun cfg_latch :: "channel \<Rightarrow> ConfigData \<Rightarrow> bool" where
  "cfg_latch TempHigh cfg = ConfigData.highLatch cfg"
| "cfg_latch TempLow cfg = ConfigData.lowLatch cfg"
| "cfg_latch HumHigh cfg = ConfigData.humhighLatch cfg"
| "cfg_latch HumLow cfg = ConfigData.humlowLatch cfg"

fun cfg_hysteresis :: "channel \<Rightarrow> ConfigData \<Rightarrow> double" where
  "cfg_hysteresis TempHigh cfg = hysteresis cfg"
| "cfg_hysteresis TempLow cfg = hysteresis cfg"
| "cfg_hysteresis HumHigh cfg = humhysteresis cfg"
| "cfg_hysteresis HumLow cfg = humhysteresis cfg"

fun reading :: "channel \<Rightarrow> Environment \<Rightarrow> double" where
  "reading TempHigh environment = Temperature environment"
| "reading TempLow environment = Temperature environment"
| "reading HumHigh environment = Humidity environment"
| "reading HumLow environment = Humidity environment"

fun events_accessor :: "channel \<Rightarrow> ConfigData \<Rightarrow> Statics \<Rightarrow> size_t \<times> Statics" where
  "events_accessor TempHigh = environment_high_temperature_events"
| "events_accessor TempLow = environment_low_temperature_events"
| "events_accessor HumHigh = environment_high_humidity_events"
| "events_accessor HumLow = environment_low_humidity_events"

text \<open>
  A run of the control loop: \<^verbatim>\<open>environment_tick\<close> evaluates one reading under the
  configuration of that moment (the configuration service may write the configuration
  between two ticks), and the caller polls accessors in between.
\<close>

datatype call = Tick ConfigData Environment | Report channel ConfigData

fun exec_call :: "call \<Rightarrow> Statics \<Rightarrow> Statics" where
  "exec_call (Tick cfg environment) s = evaluate_user_environment cfg environment s"
| "exec_call (Report ch cfg) s = snd (events_accessor ch cfg s)"

fun exec :: "call list \<Rightarrow> Statics \<Rightarrow> Statics" where
  "exec [] s = s"
| "exec (c # cs) s = exec cs (exec_call c s)"

text \<open>Evaluate steps only, and the statics after each step.\<close>

fun run :: "(ConfigData \<times> Environment) list \<Rightarrow> Statics \<Rightarrow> Statics" where
  "run [] s = s"
| "run ((cfg, environment) # rest) s = run rest (evaluate_user_environment cfg environment s)"

fun trace :: "(ConfigData \<times> Environment) list \<Rightarrow> Statics \<Rightarrow> Statics list" where
  "trace [] s = []"
| "trace ((cfg, environment) # rest) s =
     evaluate_user_environment cfg environment s
       # trace rest (evaluate_user_environment cfg environment s)"

text \<open>
  The number of steps of a run on which the monitor leaves \<^verbatim>\<open>NORMAL\<close> (or \<^verbatim>\<open>UNKNOWN\<close>,
  which falls through into it) for \<^verbatim>\<open>OUTSIDE_LIMIT\<close>.
\<close>

definition crossed :: "channel \<Rightarrow> Statics \<Rightarrow> Statics \<Rightarrow> bool" where
  "crossed ch s s' =
     ((chan_state ch s = NORMAL \<or> chan_state ch s = UNKNOWN) \<and> chan_state ch s' = OUTSIDE_LIMIT)"

fun crossings :: "channel \<Rightarrow> (ConfigData \<times> Environment) list \<Rightarrow> Statics \<Rightarrow> nat" where
  "crossings ch [] s = 0"
| "crossings ch ((cfg, environment) # rest) s =
     (if crossed ch s (evaluate_user_environment cfg environment s) then 1 else 0)
       + crossings ch rest (evaluate_user_environment cfg environment s)"

text \<open>
  The common shape of the four blocks, on the three variables a block writes: used to
  reason about all four at once, after each block is shown to be an instance of it.
\<close>

fun monitor_step ::
  "bool \<Rightarrow> bool \<Rightarrow> double \<Rightarrow> double \<Rightarrow> double \<Rightarrow> EnvState \<times> size_t \<times> bool \<Rightarrow> EnvState \<times> size_t \<times> bool" where
  "monitor_step high enable T H v (st, n, l) =
     (if enable then
        (case st of
           UNKNOWN \<Rightarrow>
             (if (if high then dge v T else dle v T) then (OUTSIDE_LIMIT, n + 1, True)
              else (NORMAL, n, l))
         | NORMAL \<Rightarrow>
             (if (if high then dge v T else dle v T) then (OUTSIDE_LIMIT, n + 1, True)
              else (NORMAL, n, l))
         | OUTSIDE_LIMIT \<Rightarrow>
             (if (if high then dlt v T else dgt v T) then (INSIDE_LIMIT, n, l)
              else (OUTSIDE_LIMIT, n, l))
         | INSIDE_LIMIT \<Rightarrow>
             (if (if high then dle v (dsub T H) else dge v (dadd T H)) then (NORMAL, n, False)
              else if (if high then dge v T else dle v T) then (OUTSIDE_LIMIT, n, l)
              else (INSIDE_LIMIT, n, l)))
      else (st, n, l))"

definition chan_monitor :: "channel \<Rightarrow> Statics \<Rightarrow> EnvState \<times> size_t \<times> bool" where
  "chan_monitor ch s = (chan_state ch s, chan_events ch s, chan_latch ch s)"

text \<open>
  The trace of one monitor under \<open>monitor_step\<close>, and the relation between a monitor's
  latch flag and its state that the blocks maintain.
\<close>

fun monitor_trace ::
  "channel \<Rightarrow> (ConfigData \<times> Environment) list \<Rightarrow> EnvState \<times> size_t \<times> bool
     \<Rightarrow> (EnvState \<times> size_t \<times> bool) list" where
  "monitor_trace ch [] m = []"
| "monitor_trace ch ((cfg, environment) # rest) m =
     monitor_step (is_high ch) (cfg_enable ch cfg) (cfg_threshold ch cfg) (cfg_hysteresis ch cfg)
       (reading ch environment) m
     # monitor_trace ch rest
         (monitor_step (is_high ch) (cfg_enable ch cfg) (cfg_threshold ch cfg)
            (cfg_hysteresis ch cfg) (reading ch environment) m)"

definition latch_inv :: "channel \<Rightarrow> Statics \<Rightarrow> bool" where
  "latch_inv ch s =
     (chan_state ch s \<noteq> UNKNOWN \<and>
      chan_latch ch s = (chan_state ch s = OUTSIDE_LIMIT \<or> chan_state ch s = INSIDE_LIMIT))"

section \<open>Facts about the binary64 comparisons\<close>

lemmas double_defs = scaled_def to_double_def round_even_def dge_def dgt_def Let_def

lemma dge_not_dlt: "dge v T \<Longrightarrow> \<not> dlt v T"
  by (cases v; cases T) (simp_all add: dge_def min.commute)

lemma dle_not_dgt: "dle v T \<Longrightarrow> \<not> dgt v T"
  by (cases v; cases T) (simp_all add: dgt_def min.commute)

text \<open>
  The comparisons are those of the real values; rounding drops enough bits for the
  significand, goes to a nearest multiple of \<open>2 ^ k\<close>, and changes nothing when the exact
  result is a binary64 value.
\<close>

lemma scaled_value: "e0 \<le> e \<Longrightarrow> of_int (scaled m e e0) * 2 powi e0 = finite_value m e"
proof -
  assume le: "e0 \<le> e"
  have "(2::real) powi e = 2 powi (e - e0) * 2 powi e0"
    by (simp add: power_int_add [symmetric])
  moreover have "(2::real) powi (e - e0) = 2 ^ nat (e - e0)"
    using le by (simp add: power_int_def)
  ultimately show ?thesis
    by (simp add: scaled_def finite_value_def)
qed

lemma dle_finite_value:
  "dle (Finite m1 e1) (Finite m2 e2) \<longleftrightarrow> finite_value m1 e1 \<le> finite_value m2 e2"
proof -
  let ?e = "min e1 e2"
  have pos: "(0::real) < 2 powi ?e" by simp
  have "finite_value m1 e1 \<le> finite_value m2 e2
      \<longleftrightarrow> real_of_int (scaled m1 e1 ?e) * 2 powi ?e \<le> real_of_int (scaled m2 e2 ?e) * 2 powi ?e"
    by (simp only: scaled_value [OF min.cobounded1] scaled_value [OF min.cobounded2])
  also have "\<dots> \<longleftrightarrow> real_of_int (scaled m1 e1 ?e) \<le> real_of_int (scaled m2 e2 ?e)"
    using pos by (simp only: mult_le_cancel_right_pos)
  also have "\<dots> \<longleftrightarrow> scaled m1 e1 ?e \<le> scaled m2 e2 ?e"
    by (simp only: of_int_le_iff)
  finally show ?thesis by simp
qed

lemma dlt_finite_value:
  "dlt (Finite m1 e1) (Finite m2 e2) \<longleftrightarrow> finite_value m1 e1 < finite_value m2 e2"
proof -
  let ?e = "min e1 e2"
  have pos: "(0::real) < 2 powi ?e" by simp
  have "finite_value m1 e1 < finite_value m2 e2
      \<longleftrightarrow> real_of_int (scaled m1 e1 ?e) * 2 powi ?e < real_of_int (scaled m2 e2 ?e) * 2 powi ?e"
    by (simp only: scaled_value [OF min.cobounded1] scaled_value [OF min.cobounded2])
  also have "\<dots> \<longleftrightarrow> real_of_int (scaled m1 e1 ?e) < real_of_int (scaled m2 e2 ?e)"
    using pos by (simp only: mult_less_cancel_right_pos)
  also have "\<dots> \<longleftrightarrow> scaled m1 e1 ?e < scaled m2 e2 ?e"
    by (simp only: of_int_less_iff)
  finally show ?thesis by simp
qed

lemma round_even_nearest: "2 * \<bar>round_even m k * 2 ^ k - m\<bar> \<le> 2 ^ k"
proof -
  define q where "q = m div 2 ^ k"
  define r where "r = m mod 2 ^ k"
  have m: "m = q * 2 ^ k + r" unfolding q_def r_def by (rule div_mult_mod_eq [symmetric])
  have r: "0 \<le> r" "r < 2 ^ k" by (simp_all add: r_def)
  have "round_even m k = q \<and> 2 * r \<le> 2 ^ k \<or> round_even m k = q + 1 \<and> 2 ^ k \<le> 2 * r"
    by (auto simp: round_even_def Let_def q_def r_def)
  then show ?thesis
    using r by (auto simp: m algebra_simps)
qed

lemma to_double_exact:
  assumes "\<bar>m\<bar> < 2 ^ 53" and "- 1074 \<le> e" and "e \<le> 971"
  shows "to_double m e = Finite m e"
proof -
  have k: "max (excess (nat \<bar>m\<bar>)) (nat (- 1074 - e)) = 0"
    using assms by simp
  have q: "round_even m 0 = m"
    by (simp add: round_even_def)
  have "\<bar>m\<bar> * 2 ^ nat e < 2 ^ 1024" if "0 \<le> e"
  proof -
    have "\<bar>m\<bar> * 2 ^ nat e < 2 ^ 53 * 2 ^ nat e"
      using assms(1) by simp
    also have "\<dots> = 2 ^ (53 + nat e)" by (simp add: power_add)
    also have "\<dots> \<le> (2::int) ^ 1024"
      using assms(3) that by (intro power_increasing) auto
    finally show ?thesis .
  qed
  then show ?thesis
    unfolding to_double_def k Let_def q by auto
qed

lemma excess_fits: "n div 2 ^ excess n < 2 ^ 53"
proof (induction n rule: excess.induct)
  case (1 n)
  show ?case
  proof (cases "n < 2 ^ 53")
    case True
    then have "excess n = 0"
      by (subst excess.simps) (simp only: if_True)
    with True show ?thesis
      by (simp only: power_0 div_by_1)
  next
    case False
    then have unfold: "excess n = Suc (excess (n div 2))"
      by (subst excess.simps) (simp only: if_False)
    have "n div 2 ^ excess n = (n div 2) div 2 ^ excess (n div 2)"
      unfolding unfold by (simp only: power_Suc div_mult2_eq)
    with 1 [OF False] show ?thesis
      by (simp only:)
  qed
qed

section \<open>Each block writes its own monitor only\<close>

lemma high_temperature_frame:
  "ch \<noteq> TempHigh \<Longrightarrow> chan_monitor ch (evaluate_high_temperature cfg e s) = chan_monitor ch s"
  by (cases ch)
     (simp_all add: chan_monitor_def evaluate_high_temperature_def high_temperature_normal_def
        split: EnvState.splits)

lemma low_temperature_frame:
  "ch \<noteq> TempLow \<Longrightarrow> chan_monitor ch (evaluate_low_temperature cfg e s) = chan_monitor ch s"
  by (cases ch)
     (simp_all add: chan_monitor_def evaluate_low_temperature_def low_temperature_normal_def
        split: EnvState.splits)

lemma high_humidity_frame:
  "ch \<noteq> HumHigh \<Longrightarrow> chan_monitor ch (evaluate_high_humidity cfg e s) = chan_monitor ch s"
  by (cases ch)
     (simp_all add: chan_monitor_def evaluate_high_humidity_def high_humidity_normal_def
        split: EnvState.splits)

lemma low_humidity_frame:
  "ch \<noteq> HumLow \<Longrightarrow> chan_monitor ch (evaluate_low_humidity cfg e s) = chan_monitor ch s"
  by (cases ch)
     (simp_all add: chan_monitor_def evaluate_low_humidity_def low_humidity_normal_def
        split: EnvState.splits)

lemma high_temperature_own:
  "chan_monitor TempHigh (evaluate_high_temperature cfg e s)
     = monitor_step True (highEnable cfg) (highThreshold cfg) (hysteresis cfg) (Temperature e)
         (chan_monitor TempHigh s)"
  by (simp add: chan_monitor_def evaluate_high_temperature_def high_temperature_normal_def
        split: EnvState.splits)

lemma low_temperature_own:
  "chan_monitor TempLow (evaluate_low_temperature cfg e s)
     = monitor_step False (lowEnable cfg) (lowThreshold cfg) (hysteresis cfg) (Temperature e)
         (chan_monitor TempLow s)"
  by (simp add: chan_monitor_def evaluate_low_temperature_def low_temperature_normal_def
        split: EnvState.splits)

lemma high_humidity_own:
  "chan_monitor HumHigh (evaluate_high_humidity cfg e s)
     = monitor_step True (humhighEnable cfg) (humhighThreshold cfg) (humhysteresis cfg) (Humidity e)
         (chan_monitor HumHigh s)"
  by (simp add: chan_monitor_def evaluate_high_humidity_def high_humidity_normal_def
        split: EnvState.splits)

lemma low_humidity_own:
  "chan_monitor HumLow (evaluate_low_humidity cfg e s)
     = monitor_step False (humlowEnable cfg) (humlowThreshold cfg) (humhysteresis cfg) (Humidity e)
         (chan_monitor HumLow s)"
  by (simp add: chan_monitor_def evaluate_low_humidity_def low_humidity_normal_def
        split: EnvState.splits)

lemma evaluate_monitor:
  "chan_monitor ch (evaluate_user_environment cfg e s)
     = monitor_step (is_high ch) (cfg_enable ch cfg) (cfg_threshold ch cfg) (cfg_hysteresis ch cfg)
         (reading ch e) (chan_monitor ch s)"
  unfolding evaluate_user_environment_def
  by (cases ch)
     (simp_all only: high_temperature_frame low_temperature_frame high_humidity_frame
        low_humidity_frame high_temperature_own low_temperature_own high_humidity_own
        low_humidity_own channel.distinct not_False_eq_True is_high.simps cfg_enable.simps
        cfg_threshold.simps cfg_hysteresis.simps reading.simps)

lemma high_temperature_last:
  "chan_last ch (evaluate_high_temperature cfg e s) = chan_last ch s"
  by (cases ch)
     (simp_all add: evaluate_high_temperature_def high_temperature_normal_def
        split: EnvState.splits)

lemma low_temperature_last:
  "chan_last ch (evaluate_low_temperature cfg e s) = chan_last ch s"
  by (cases ch)
     (simp_all add: evaluate_low_temperature_def low_temperature_normal_def
        split: EnvState.splits)

lemma high_humidity_last:
  "chan_last ch (evaluate_high_humidity cfg e s) = chan_last ch s"
  by (cases ch)
     (simp_all add: evaluate_high_humidity_def high_humidity_normal_def
        split: EnvState.splits)

lemma low_humidity_last:
  "chan_last ch (evaluate_low_humidity cfg e s) = chan_last ch s"
  by (cases ch)
     (simp_all add: evaluate_low_humidity_def low_humidity_normal_def
        split: EnvState.splits)

lemma evaluate_last:
  "chan_last ch (evaluate_user_environment cfg e s) = chan_last ch s"
  by (simp only: evaluate_user_environment_def high_temperature_last low_temperature_last
        high_humidity_last low_humidity_last)

section \<open>Runs, the counter and the latch\<close>

lemma trace_monitor:
  "map (chan_monitor ch) (trace steps s) = monitor_trace ch steps (chan_monitor ch s)"
  by (induction steps s rule: trace.induct) (simp_all add: evaluate_monitor)

lemma run_trace: "run steps s = last (s # trace steps s)"
  by (induction steps s rule: run.induct) simp_all

lemma run_monitor:
  "chan_monitor ch (run steps s) = last (chan_monitor ch s # monitor_trace ch steps (chan_monitor ch s))"
proof -
  have "chan_monitor ch (run steps s) = last (map (chan_monitor ch) (s # trace steps s))"
    unfolding run_trace by (simp only: last_map list.distinct not_False_eq_True)
  then show ?thesis by (simp only: list.map trace_monitor)
qed

lemma run_last: "chan_last ch (run steps s) = chan_last ch s"
  by (induction steps s rule: run.induct) (simp_all add: evaluate_last)

lemma evaluate_events:
  "chan_events ch (evaluate_user_environment cfg e s)
     = chan_events ch s + of_bool (crossed ch s (evaluate_user_environment cfg e s))"
proof -
  have "chan_monitor ch (evaluate_user_environment cfg e s)
      = monitor_step (is_high ch) (cfg_enable ch cfg) (cfg_threshold ch cfg)
          (cfg_hysteresis ch cfg) (reading ch e) (chan_state ch s, chan_events ch s, chan_latch ch s)"
    using evaluate_monitor [of ch cfg e s] by (simp only: chan_monitor_def)
  then show ?thesis
    by (cases "chan_state ch s") (auto simp: chan_monitor_def crossed_def split: if_splits)
qed

lemma run_events:
  "chan_events ch (run steps s) = chan_events ch s + of_nat (crossings ch steps s)"
  by (induction steps s rule: run.induct) (simp_all add: evaluate_events)

lemma latch_inv_init: "latch_inv ch statics_init"
  by (cases ch) (simp_all add: latch_inv_def statics_init_def)

lemma latch_inv_evaluate:
  assumes "latch_inv ch s"
  shows "latch_inv ch (evaluate_user_environment cfg e s)"
proof -
  have "chan_monitor ch (evaluate_user_environment cfg e s)
      = monitor_step (is_high ch) (cfg_enable ch cfg) (cfg_threshold ch cfg)
          (cfg_hysteresis ch cfg) (reading ch e) (chan_state ch s, chan_events ch s, chan_latch ch s)"
    using evaluate_monitor [of ch cfg e s] by (simp only: chan_monitor_def)
  with assms show ?thesis
    by (cases "chan_state ch s") (auto simp: chan_monitor_def latch_inv_def split: if_splits)
qed

lemma accessor_monitor:
  "chan_monitor ch' (snd (events_accessor ch cfg s)) = chan_monitor ch' s"
  by (cases ch; cases ch')
     (simp_all add: chan_monitor_def environment_high_temperature_events_def
        environment_low_temperature_events_def environment_high_humidity_events_def
        environment_low_humidity_events_def Let_def)

lemma accessor_last:
  "chan_last ch' (snd (events_accessor ch cfg s))
     = (if ch' = ch then chan_events ch s else chan_last ch' s)"
  by (cases ch; cases ch')
     (simp_all add: environment_high_temperature_events_def
        environment_low_temperature_events_def environment_high_humidity_events_def
        environment_low_humidity_events_def Let_def)

lemma accessor_value:
  "fst (events_accessor ch cfg s)
     = (if cfg_latch ch cfg then of_bool (chan_latch ch s) else chan_events ch s - chan_last ch s)"
  by (cases ch)
     (simp_all add: environment_high_temperature_events_def
        environment_low_temperature_events_def environment_high_humidity_events_def
        environment_low_humidity_events_def Let_def)

lemma latch_inv_accessor:
  "latch_inv ch' (snd (events_accessor ch cfg s)) = latch_inv ch' s"
  using accessor_monitor [of ch' ch cfg s] by (simp add: latch_inv_def chan_monitor_def)

lemma latch_inv_exec: "latch_inv ch s \<Longrightarrow> latch_inv ch (exec cs s)"
proof (induction cs arbitrary: s)
  case Nil
  then show ?case by simp
next
  case (Cons c cs)
  then show ?case
    by (cases c) (simp_all add: latch_inv_evaluate latch_inv_accessor)
qed

lemma latch_inv_run: "latch_inv ch s \<Longrightarrow> latch_inv ch (run steps s)"
  by (induction steps s rule: run.induct) (simp_all add: latch_inv_evaluate)

lemma exec_ticks: "exec (map (\<lambda>(cfg, e). Tick cfg e) steps) s = run steps s"
  by (induction steps s rule: run.induct) simp_all

lemma constant_outside:
  assumes "is_high ch" and "cfg_enable ch cfg" and "\<forall>e \<in> set envs. dge (reading ch e) (cfg_threshold ch cfg)"
  shows "monitor_trace ch (map (Pair cfg) envs) (OUTSIDE_LIMIT, n, l)
           = replicate (length envs) (OUTSIDE_LIMIT, n, l)"
  using assms by (induction envs) (simp_all add: dge_not_dlt)

lemma crossings_le: "crossings ch steps s \<le> length steps"
  by (induction steps s rule: crossings.induct) simp_all

lemma unknown_processed_as_normal:
  assumes "cfg_enable ch cfg" and "chan_monitor ch s = (UNKNOWN, n, l)"
    and "chan_monitor ch t = (NORMAL, n, l)"
  shows "chan_monitor ch (evaluate_user_environment cfg e s)
           = chan_monitor ch (evaluate_user_environment cfg e t)"
  using assms by (simp add: evaluate_monitor)

section \<open>The transitions of one evaluate step\<close>

text \<open>
  C1. The claim states the test of \<^verbatim>\<open>INSIDE_LIMIT\<close> as \<open>value \<le> T - H\<close>. With the exact
  difference it fails: at \<open>T = 45\<close>, \<open>H = 2 ^ - 50\<close> the reading 45 in \<^verbatim>\<open>INSIDE_LIMIT\<close>
  is above \<open>T - H\<close> and at \<open>T\<close>, so the claim sends the monitor back to
  \<^verbatim>\<open>OUTSIDE_LIMIT\<close> with the latch set. The code compares with the binary64 difference,
  which rounds to 45: after the readings 46, 44, 45 the monitor is in \<^verbatim>\<open>NORMAL\<close> with the
  latch cleared.
\<close>

theorem high_exact_difference_counterexample:
  "map (chan_monitor TempHigh)
     (trace [(environmentConfig_init\<lparr>highEnable := True, hysteresis := Finite 1 (- 50)\<rparr>,
                \<lparr>Temperature = Finite 46 0, Humidity = Finite 50 0\<rparr>),
             (environmentConfig_init\<lparr>highEnable := True, hysteresis := Finite 1 (- 50)\<rparr>,
                \<lparr>Temperature = Finite 44 0, Humidity = Finite 50 0\<rparr>),
             (environmentConfig_init\<lparr>highEnable := True, hysteresis := Finite 1 (- 50)\<rparr>,
                \<lparr>Temperature = Finite 45 0, Humidity = Finite 50 0\<rparr>)]
        statics_init)
     = [(OUTSIDE_LIMIT, 1, True), (INSIDE_LIMIT, 1, True), (NORMAL, 1, False)] \<and>
   \<not> finite_value 45 0 \<le> finite_value 45 0 - finite_value 1 (- 50) \<and>
   finite_value 45 0 \<ge> finite_value 45 0"
  unfolding trace_monitor
  by (simp add: double_defs chan_monitor_def statics_init_def environmentConfig_init_def
        ExternalTemperatureHighDefault_def finite_value_def)

text \<open>
  C1, amended. For every High-direction monitor (temperature high, humidity high) with
  threshold \<open>T\<close> and hysteresis \<open>H\<close>, one call of \<^verbatim>\<open>evaluate_user_environment\<close> with the
  channel enabled does exactly this to the monitor's (state, event counter, latch flag),
  the comparisons being those of binary64 and \<open>T - H\<close> the binary64 difference
  \<open>dsub T H\<close> (the exact difference rounded to nearest, ties to even):
  in \<^verbatim>\<open>NORMAL\<close>, if \<open>value \<ge> T\<close> the counter is incremented, the latch is set and the
  state becomes \<^verbatim>\<open>OUTSIDE_LIMIT\<close>; in \<^verbatim>\<open>OUTSIDE_LIMIT\<close>, if \<open>value < T\<close> the state
  becomes \<^verbatim>\<open>INSIDE_LIMIT\<close>, counter and latch as they were; in \<^verbatim>\<open>INSIDE_LIMIT\<close>, if
  \<open>value \<le> dsub T H\<close> the latch is cleared and the state becomes \<^verbatim>\<open>NORMAL\<close>, else if
  \<open>value \<ge> T\<close> the state becomes \<^verbatim>\<open>OUTSIDE_LIMIT\<close> with the counter as it was; in every
  other case state, counter and latch are unchanged.
\<close>

theorem high_monitor_transitions:
  assumes "is_high ch" and "cfg_enable ch cfg"
    and "s' = evaluate_user_environment cfg e s"
    and "v = reading ch e" and "T = cfg_threshold ch cfg" and "H = cfg_hysteresis ch cfg"
  shows
    "(chan_state ch s = NORMAL \<longrightarrow>
        chan_monitor ch s' =
          (if dge v T then (OUTSIDE_LIMIT, chan_events ch s + 1, True) else chan_monitor ch s)) \<and>
     (chan_state ch s = OUTSIDE_LIMIT \<longrightarrow>
        chan_monitor ch s' =
          (if dlt v T then (INSIDE_LIMIT, chan_events ch s, chan_latch ch s) else chan_monitor ch s)) \<and>
     (chan_state ch s = INSIDE_LIMIT \<longrightarrow>
        chan_monitor ch s' =
          (if dle v (dsub T H) then (NORMAL, chan_events ch s, False)
           else if dge v T then (OUTSIDE_LIMIT, chan_events ch s, chan_latch ch s)
           else chan_monitor ch s))"
  using assms by (simp add: evaluate_monitor) (simp add: chan_monitor_def)

theorem high_monitor_transitions_witness:
  "chan_monitor TempHigh
     (evaluate_user_environment (environmentConfig_init\<lparr>highEnable := True\<rparr>)
        \<lparr>Temperature = Finite 46 0, Humidity = Finite 50 0\<rparr> statics_init) = (OUTSIDE_LIMIT, 1, True) \<and>
   chan_monitor HumHigh
     (evaluate_user_environment (environmentConfig_init\<lparr>humhighEnable := True\<rparr>)
        \<lparr>Temperature = Finite 20 0, Humidity = Finite 94 0\<rparr>
        (statics_init\<lparr>humhighState := OUTSIDE_LIMIT, humhighEvents := 1, humhighLatch := True\<rparr>))
      = (INSIDE_LIMIT, 1, True) \<and>
   chan_monitor TempHigh
     (evaluate_user_environment (environmentConfig_init\<lparr>highEnable := True\<rparr>)
        \<lparr>Temperature = Finite 40 0, Humidity = Finite 50 0\<rparr>
        (statics_init\<lparr>highState := INSIDE_LIMIT, highEvents := 1, highLatch := True\<rparr>))
      = (NORMAL, 1, False) \<and>
   chan_monitor TempHigh
     (evaluate_user_environment
        (environmentConfig_init\<lparr>highEnable := True, hysteresis := Finite 1 (- 50)\<rparr>)
        \<lparr>Temperature = Finite 45 0, Humidity = Finite 50 0\<rparr>
        (statics_init\<lparr>highState := INSIDE_LIMIT, highEvents := 1, highLatch := True\<rparr>))
      = (NORMAL, 1, False)"
  using
    high_monitor_transitions [of TempHigh
      "environmentConfig_init\<lparr>highEnable := True, hysteresis := Finite 1 (- 50)\<rparr>"
      _ "\<lparr>Temperature = Finite 45 0, Humidity = Finite 50 0\<rparr>"
      "statics_init\<lparr>highState := INSIDE_LIMIT, highEvents := 1, highLatch := True\<rparr>",
      OF _ _ refl refl refl refl]
    high_monitor_transitions [of TempHigh "environmentConfig_init\<lparr>highEnable := True\<rparr>"
      _ "\<lparr>Temperature = Finite 46 0, Humidity = Finite 50 0\<rparr>" statics_init, OF _ _ refl refl refl refl]
    high_monitor_transitions [of HumHigh "environmentConfig_init\<lparr>humhighEnable := True\<rparr>"
      _ "\<lparr>Temperature = Finite 20 0, Humidity = Finite 94 0\<rparr>"
      "statics_init\<lparr>humhighState := OUTSIDE_LIMIT, humhighEvents := 1, humhighLatch := True\<rparr>",
      OF _ _ refl refl refl refl]
    high_monitor_transitions [of TempHigh "environmentConfig_init\<lparr>highEnable := True\<rparr>"
      _ "\<lparr>Temperature = Finite 40 0, Humidity = Finite 50 0\<rparr>"
      "statics_init\<lparr>highState := INSIDE_LIMIT, highEvents := 1, highLatch := True\<rparr>",
      OF _ _ refl refl refl refl]
  by (simp add: double_defs statics_init_def environmentConfig_init_def ExternalTemperatureHighDefault_def
        ExternalTemperatureHysteresisDefault_def ExternalHumidityHighDefault_def)

text \<open>
  C2. The claim states the test of \<^verbatim>\<open>INSIDE_LIMIT\<close> as \<open>value \<ge> T + H\<close>. With the exact sum
  it fails: at \<open>T = 25.1\<close> and \<open>H = 4.9\<close> (the doubles
  \<open>3532510957718733 * 2 ^ - 47\<close> and \<open>2758454771764429 * 2 ^ - 49\<close>) the reading 30 in
  \<^verbatim>\<open>INSIDE_LIMIT\<close> is below \<open>T + H\<close> and above \<open>T\<close>, so the claim leaves the monitor in
  \<^verbatim>\<open>INSIDE_LIMIT\<close> with the latch set. The code compares with the binary64 sum, which
  rounds to 30: after the readings 20, 26, 30 the monitor is in \<^verbatim>\<open>NORMAL\<close> with the latch
  cleared.
\<close>

theorem low_exact_sum_counterexample:
  "map (chan_monitor TempLow)
     (trace [(environmentConfig_init\<lparr>lowEnable := True,
                lowThreshold := Finite 3532510957718733 (- 47),
                hysteresis := Finite 2758454771764429 (- 49)\<rparr>,
                \<lparr>Temperature = Finite 20 0, Humidity = Finite 50 0\<rparr>),
             (environmentConfig_init\<lparr>lowEnable := True,
                lowThreshold := Finite 3532510957718733 (- 47),
                hysteresis := Finite 2758454771764429 (- 49)\<rparr>,
                \<lparr>Temperature = Finite 26 0, Humidity = Finite 50 0\<rparr>),
             (environmentConfig_init\<lparr>lowEnable := True,
                lowThreshold := Finite 3532510957718733 (- 47),
                hysteresis := Finite 2758454771764429 (- 49)\<rparr>,
                \<lparr>Temperature = Finite 30 0, Humidity = Finite 50 0\<rparr>)]
        statics_init)
     = [(OUTSIDE_LIMIT, 1, True), (INSIDE_LIMIT, 1, True), (NORMAL, 1, False)] \<and>
   \<not> finite_value 30 0
       \<ge> finite_value 3532510957718733 (- 47) + finite_value 2758454771764429 (- 49) \<and>
   \<not> finite_value 30 0 \<le> finite_value 3532510957718733 (- 47)"
  unfolding trace_monitor
  by (simp add: double_defs chan_monitor_def statics_init_def environmentConfig_init_def
        finite_value_def field_simps)

text \<open>
  C2, amended. For every Low-direction monitor (temperature low, humidity low) the
  transitions mirror C1, the comparisons being those of binary64 and \<open>T + H\<close> the binary64
  sum \<open>dadd T H\<close> (the exact sum rounded to nearest, ties to even): \<^verbatim>\<open>NORMAL\<close> to
  \<^verbatim>\<open>OUTSIDE_LIMIT\<close> (counter plus one, latch set) when \<open>value \<le> T\<close>; \<^verbatim>\<open>OUTSIDE_LIMIT\<close>
  to \<^verbatim>\<open>INSIDE_LIMIT\<close> when \<open>value > T\<close>; \<^verbatim>\<open>INSIDE_LIMIT\<close> to \<^verbatim>\<open>NORMAL\<close> (latch
  cleared) when \<open>value \<ge> dadd T H\<close>, or back to \<^verbatim>\<open>OUTSIDE_LIMIT\<close> (not counted) when
  \<open>value \<le> T\<close>. With \<open>T = 25\<close> and \<open>H = 5\<close>, where the sum is exact, the readings 20, 26, 31
  from \<^verbatim>\<open>NORMAL\<close> leave the latch set after 20 and after 26 and clear it at 31, the first
  reading that is at least 30.
\<close>

theorem low_monitor_transitions:
  assumes "\<not> is_high ch" and "cfg_enable ch cfg"
    and "s' = evaluate_user_environment cfg e s"
    and "v = reading ch e" and "T = cfg_threshold ch cfg" and "H = cfg_hysteresis ch cfg"
  shows
    "(chan_state ch s = NORMAL \<longrightarrow>
        chan_monitor ch s' =
          (if dle v T then (OUTSIDE_LIMIT, chan_events ch s + 1, True) else chan_monitor ch s)) \<and>
     (chan_state ch s = OUTSIDE_LIMIT \<longrightarrow>
        chan_monitor ch s' =
          (if dgt v T then (INSIDE_LIMIT, chan_events ch s, chan_latch ch s) else chan_monitor ch s)) \<and>
     (chan_state ch s = INSIDE_LIMIT \<longrightarrow>
        chan_monitor ch s' =
          (if dge v (dadd T H) then (NORMAL, chan_events ch s, False)
           else if dle v T then (OUTSIDE_LIMIT, chan_events ch s, chan_latch ch s)
           else chan_monitor ch s)) \<and>
     (T = Finite 25 0 \<and> H = Finite 5 0 \<and> chan_state ch s = NORMAL \<and>
      reading ch e1 = Finite 20 0 \<and> reading ch e2 = Finite 26 0 \<and> reading ch e3 = Finite 31 0 \<longrightarrow>
        map (chan_monitor ch) (trace [(cfg, e1), (cfg, e2), (cfg, e3)] s) =
          [(OUTSIDE_LIMIT, chan_events ch s + 1, True),
           (INSIDE_LIMIT, chan_events ch s + 1, True),
           (NORMAL, chan_events ch s + 1, False)])"
proof -
  have step: "chan_monitor ch s' =
      monitor_step False True T H v (chan_state ch s, chan_events ch s, chan_latch ch s)"
    using assms evaluate_monitor [of ch cfg e s] by (simp add: chan_monitor_def)
  have run3: "map (chan_monitor ch) (trace [(cfg, e1), (cfg, e2), (cfg, e3)] s) =
      [(OUTSIDE_LIMIT, chan_events ch s + 1, True),
       (INSIDE_LIMIT, chan_events ch s + 1, True),
       (NORMAL, chan_events ch s + 1, False)]"
    if "T = Finite 25 0" "H = Finite 5 0" "chan_state ch s = NORMAL"
      "reading ch e1 = Finite 20 0" "reading ch e2 = Finite 26 0" "reading ch e3 = Finite 31 0"
    unfolding trace_monitor using that assms by (simp add: chan_monitor_def double_defs)
  have "chan_monitor ch s = (chan_state ch s, chan_events ch s, chan_latch ch s)"
    by (simp add: chan_monitor_def)
  with step have transitions:
    "chan_state ch s = NORMAL \<longrightarrow>
       chan_monitor ch s' =
         (if dle v T then (OUTSIDE_LIMIT, chan_events ch s + 1, True) else chan_monitor ch s)"
    "chan_state ch s = OUTSIDE_LIMIT \<longrightarrow>
       chan_monitor ch s' =
         (if dgt v T then (INSIDE_LIMIT, chan_events ch s, chan_latch ch s) else chan_monitor ch s)"
    "chan_state ch s = INSIDE_LIMIT \<longrightarrow>
       chan_monitor ch s' =
         (if dge v (dadd T H) then (NORMAL, chan_events ch s, False)
          else if dle v T then (OUTSIDE_LIMIT, chan_events ch s, chan_latch ch s)
          else chan_monitor ch s)"
    by simp_all
  from transitions run3 show ?thesis by blast
qed

theorem low_monitor_transitions_witness:
  "chan_monitor TempLow
     (evaluate_user_environment (environmentConfig_init\<lparr>lowEnable := True\<rparr>)
        \<lparr>Temperature = Finite 20 0, Humidity = Finite 50 0\<rparr> statics_init) = (OUTSIDE_LIMIT, 1, True) \<and>
   chan_monitor HumLow
     (evaluate_user_environment (environmentConfig_init\<lparr>humlowEnable := True\<rparr>)
        \<lparr>Temperature = Finite 20 0, Humidity = Finite 26 0\<rparr>
        (statics_init\<lparr>humlowState := OUTSIDE_LIMIT, humlowEvents := 1, humlowLatch := True\<rparr>))
      = (INSIDE_LIMIT, 1, True) \<and>
   chan_monitor TempLow
     (evaluate_user_environment (environmentConfig_init\<lparr>lowEnable := True\<rparr>)
        \<lparr>Temperature = Finite 31 0, Humidity = Finite 50 0\<rparr>
        (statics_init\<lparr>lowState := INSIDE_LIMIT, lowEvents := 1, lowLatch := True\<rparr>))
      = (NORMAL, 1, False) \<and>
   chan_monitor TempLow
     (evaluate_user_environment
        (environmentConfig_init\<lparr>lowEnable := True,
           lowThreshold := Finite 3532510957718733 (- 47),
           hysteresis := Finite 2758454771764429 (- 49)\<rparr>)
        \<lparr>Temperature = Finite 30 0, Humidity = Finite 50 0\<rparr>
        (statics_init\<lparr>lowState := INSIDE_LIMIT, lowEvents := 1, lowLatch := True\<rparr>))
      = (NORMAL, 1, False) \<and>
   map (chan_monitor TempLow)
     (trace [(environmentConfig_init\<lparr>lowEnable := True\<rparr>, \<lparr>Temperature = Finite 20 0, Humidity = Finite 50 0\<rparr>),
             (environmentConfig_init\<lparr>lowEnable := True\<rparr>, \<lparr>Temperature = Finite 26 0, Humidity = Finite 50 0\<rparr>),
             (environmentConfig_init\<lparr>lowEnable := True\<rparr>, \<lparr>Temperature = Finite 31 0, Humidity = Finite 50 0\<rparr>)]
        statics_init)
      = [(OUTSIDE_LIMIT, 1, True), (INSIDE_LIMIT, 1, True), (NORMAL, 1, False)]"
  using
    low_monitor_transitions [of TempLow
      "environmentConfig_init\<lparr>lowEnable := True,
         lowThreshold := Finite 3532510957718733 (- 47),
         hysteresis := Finite 2758454771764429 (- 49)\<rparr>"
      _ "\<lparr>Temperature = Finite 30 0, Humidity = Finite 50 0\<rparr>"
      "statics_init\<lparr>lowState := INSIDE_LIMIT, lowEvents := 1, lowLatch := True\<rparr>"
      _ _ _ e1 e2 e3,
      OF _ _ refl refl refl refl]
    low_monitor_transitions [of TempLow "environmentConfig_init\<lparr>lowEnable := True\<rparr>"
      _ "\<lparr>Temperature = Finite 20 0, Humidity = Finite 50 0\<rparr>" statics_init _ _ _
      "\<lparr>Temperature = Finite 20 0, Humidity = Finite 50 0\<rparr>" "\<lparr>Temperature = Finite 26 0, Humidity = Finite 50 0\<rparr>"
      "\<lparr>Temperature = Finite 31 0, Humidity = Finite 50 0\<rparr>", OF _ _ refl refl refl refl]
    low_monitor_transitions [of HumLow "environmentConfig_init\<lparr>humlowEnable := True\<rparr>"
      _ "\<lparr>Temperature = Finite 20 0, Humidity = Finite 26 0\<rparr>"
      "statics_init\<lparr>humlowState := OUTSIDE_LIMIT, humlowEvents := 1, humlowLatch := True\<rparr>"
      _ _ _ e1 e2 e3,
      OF _ _ refl refl refl refl]
    low_monitor_transitions [of TempLow "environmentConfig_init\<lparr>lowEnable := True\<rparr>"
      _ "\<lparr>Temperature = Finite 31 0, Humidity = Finite 50 0\<rparr>"
      "statics_init\<lparr>lowState := INSIDE_LIMIT, lowEvents := 1, lowLatch := True\<rparr>"
      _ _ _ e1 e2 e3,
      OF _ _ refl refl refl refl]
  by (simp add: double_defs statics_init_def environmentConfig_init_def ExternalTemperatureLowDefault_def
        ExternalTemperatureHysteresisDefault_def ExternalHumidityLowDefault_def
        ExternalHumidityHysteresisDefault_def)

section \<open>Disabled monitors\<close>

text \<open>
  C4. For every monitor whose enable flag is false, an evaluate step with any reading
  leaves the monitor's state, event counter and latch flag unchanged. Over any number of
  steps with the channel disabled they stay as they were, so a latch that was set stays
  set; and the first step after that (with the channel enabled again, or not) gives what
  it would have given from the state before the disabled steps: the monitor resumes from
  the frozen state and is not reset to \<^verbatim>\<open>NORMAL\<close>.
\<close>

theorem disabled_monitor_frozen:
  "(\<not> cfg_enable ch cfg \<longrightarrow>
      chan_monitor ch (evaluate_user_environment cfg e s) = chan_monitor ch s) \<and>
   ((\<forall>(c, x) \<in> set steps. \<not> cfg_enable ch c) \<longrightarrow>
      chan_monitor ch (run steps s) = chan_monitor ch s \<and>
      (chan_latch ch s \<longrightarrow> chan_latch ch (run steps s)) \<and>
      chan_monitor ch (evaluate_user_environment cfg' e' (run steps s))
        = chan_monitor ch (evaluate_user_environment cfg' e' s))"
proof -
  have one: "chan_monitor ch (evaluate_user_environment c x t) = chan_monitor ch t"
    if "\<not> cfg_enable ch c" for c x t
    using that by (cases "chan_monitor ch t") (simp add: evaluate_monitor)
  have many: "chan_monitor ch (run steps s) = chan_monitor ch s"
    if "\<forall>(c, x) \<in> set steps. \<not> cfg_enable ch c"
    using that by (induction steps s rule: run.induct) (simp_all add: one)
  have latch: "chan_latch ch (run steps s) = chan_latch ch s"
    if "\<forall>(c, x) \<in> set steps. \<not> cfg_enable ch c"
    using many [OF that] by (simp add: chan_monitor_def)
  have resume: "chan_monitor ch (evaluate_user_environment cfg' e' (run steps s))
        = chan_monitor ch (evaluate_user_environment cfg' e' s)"
    if "\<forall>(c, x) \<in> set steps. \<not> cfg_enable ch c"
    by (simp only: evaluate_monitor many [OF that])
  from one many latch resume show ?thesis by blast
qed

theorem disabled_monitor_frozen_witness:
  "chan_monitor TempHigh
     (evaluate_user_environment environmentConfig_init \<lparr>Temperature = Finite 30 0, Humidity = Finite 50 0\<rparr>
        (statics_init\<lparr>highState := OUTSIDE_LIMIT, highEvents := 1, highLatch := True\<rparr>))
     = (OUTSIDE_LIMIT, 1, True) \<and>
   chan_latch TempHigh
     (run [(environmentConfig_init, \<lparr>Temperature = Finite 30 0, Humidity = Finite 50 0\<rparr>),
           (environmentConfig_init, \<lparr>Temperature = Finite 20 0, Humidity = Finite 50 0\<rparr>)]
        (statics_init\<lparr>highState := OUTSIDE_LIMIT, highEvents := 1, highLatch := True\<rparr>)) \<and>
   chan_monitor TempHigh
     (run [(environmentConfig_init, \<lparr>Temperature = Finite 30 0, Humidity = Finite 50 0\<rparr>),
           (environmentConfig_init, \<lparr>Temperature = Finite 20 0, Humidity = Finite 50 0\<rparr>)]
        (statics_init\<lparr>highState := OUTSIDE_LIMIT, highEvents := 1, highLatch := True\<rparr>))
     = (OUTSIDE_LIMIT, 1, True) \<and>
   chan_monitor TempHigh
     (evaluate_user_environment (environmentConfig_init\<lparr>highEnable := True\<rparr>)
        \<lparr>Temperature = Finite 44 0, Humidity = Finite 50 0\<rparr>
        (run [(environmentConfig_init, \<lparr>Temperature = Finite 30 0, Humidity = Finite 50 0\<rparr>),
              (environmentConfig_init, \<lparr>Temperature = Finite 20 0, Humidity = Finite 50 0\<rparr>)]
           (statics_init\<lparr>highState := OUTSIDE_LIMIT, highEvents := 1, highLatch := True\<rparr>)))
     = (INSIDE_LIMIT, 1, True)"
proof -
  have off: "\<forall>(c, x) \<in> set [(environmentConfig_init, \<lparr>Temperature = Finite 30 0, Humidity = Finite 50 0\<rparr>),
                           (environmentConfig_init, \<lparr>Temperature = Finite 20 0, Humidity = Finite 50 0\<rparr>)].
               \<not> cfg_enable TempHigh c"
    by (simp add: environmentConfig_init_def)
  have start: "chan_monitor TempHigh
      (statics_init\<lparr>highState := OUTSIDE_LIMIT, highEvents := 1, highLatch := True\<rparr>)
      = (OUTSIDE_LIMIT, 1, True)"
    by (simp add: chan_monitor_def)
  have next_step: "chan_monitor TempHigh
      (evaluate_user_environment (environmentConfig_init\<lparr>highEnable := True\<rparr>)
         \<lparr>Temperature = Finite 44 0, Humidity = Finite 50 0\<rparr>
         (statics_init\<lparr>highState := OUTSIDE_LIMIT, highEvents := 1, highLatch := True\<rparr>))
      = (INSIDE_LIMIT, 1, True)"
    by (simp add: evaluate_monitor start environmentConfig_init_def
          ExternalTemperatureHighDefault_def double_defs)
  from off start next_step
    disabled_monitor_frozen [of TempHigh environmentConfig_init
      "\<lparr>Temperature = Finite 30 0, Humidity = Finite 50 0\<rparr>"
      "statics_init\<lparr>highState := OUTSIDE_LIMIT, highEvents := 1, highLatch := True\<rparr>"
      "[(environmentConfig_init, \<lparr>Temperature = Finite 30 0, Humidity = Finite 50 0\<rparr>),
        (environmentConfig_init, \<lparr>Temperature = Finite 20 0, Humidity = Finite 50 0\<rparr>)]"
      "environmentConfig_init\<lparr>highEnable := True\<rparr>" "\<lparr>Temperature = Finite 44 0, Humidity = Finite 50 0\<rparr>"]
  show ?thesis by (simp add: environmentConfig_init_def)
qed

section \<open>The initial state\<close>

text \<open>
  C6. The claim is that every monitor starts in \<^verbatim>\<open>UNKNOWN\<close>, as the comment of the enum
  says (\<^verbatim>\<open>UNKNOWN, //< Initial state\<close>). The initialisers of the four state variables are
  \<^verbatim>\<open>EnvState::NORMAL\<close>: evaluated at process start, every monitor's state is
  \<^verbatim>\<open>NORMAL\<close>, not \<^verbatim>\<open>UNKNOWN\<close>. (Lemma \<open>unknown_processed_as_normal\<close> is the
  second half of the claim: a monitor in \<^verbatim>\<open>UNKNOWN\<close> is evaluated as one in
  \<^verbatim>\<open>NORMAL\<close>.)
\<close>

theorem initial_state_is_normal:
  "chan_state ch statics_init = NORMAL \<and> chan_state ch statics_init \<noteq> UNKNOWN"
  by (cases ch) (simp_all add: statics_init_def)

section \<open>A reading held above a High threshold\<close>

text \<open>
  C8. For every enabled High-direction monitor in \<^verbatim>\<open>NORMAL\<close>, a sequence of
  evaluations all at one value \<open>v\<close> at or above the threshold increments the event counter
  once, on the first evaluation: after every evaluation of the sequence the state is
  \<^verbatim>\<open>OUTSIDE_LIMIT\<close> and the counter is the starting counter plus one.
\<close>

theorem constant_high_counts_once:
  assumes "is_high ch" and "cfg_enable ch cfg" and "chan_state ch s = NORMAL"
    and "\<forall>e \<in> set envs. reading ch e = v" and "dge v (cfg_threshold ch cfg)"
  shows "map (\<lambda>x. (chan_state ch x, chan_events ch x)) (trace (map (Pair cfg) envs) s)
           = replicate (length envs) (OUTSIDE_LIMIT, chan_events ch s + 1)"
proof (cases envs)
  case Nil
  then show ?thesis by simp
next
  case (Cons e rest)
  have above: "\<forall>x \<in> set rest. dge (reading ch x) (cfg_threshold ch cfg)"
    using assms(4,5) Cons by simp
  have first: "dge (reading ch e) (cfg_threshold ch cfg)"
    using assms(4,5) Cons by simp
  have "monitor_trace ch (map (Pair cfg) envs) (chan_monitor ch s)
      = replicate (length envs) (OUTSIDE_LIMIT, chan_events ch s + 1, True)"
    using assms(1,2,3) first constant_outside [OF assms(1,2) above]
    by (simp add: Cons chan_monitor_def)
  then have "map (chan_monitor ch) (trace (map (Pair cfg) envs) s)
      = replicate (length envs) (OUTSIDE_LIMIT, chan_events ch s + 1, True)"
    by (simp only: trace_monitor)
  then have "map ((\<lambda>(st, n, l). (st, n)) \<circ> chan_monitor ch) (trace (map (Pair cfg) envs) s)
      = map (\<lambda>(st, n, l). (st, n)) (replicate (length envs) (OUTSIDE_LIMIT, chan_events ch s + 1, True))"
    by (simp only: map_map [symmetric])
  then show ?thesis by (simp add: comp_def chan_monitor_def)
qed

theorem constant_high_counts_once_witness:
  "map (\<lambda>x. (chan_state TempHigh x, chan_events TempHigh x))
     (trace (map (Pair (environmentConfig_init\<lparr>highEnable := True\<rparr>))
        [\<lparr>Temperature = Finite 50 0, Humidity = Finite 40 0\<rparr>, \<lparr>Temperature = Finite 50 0, Humidity = Finite 41 0\<rparr>,
         \<lparr>Temperature = Finite 50 0, Humidity = Finite 42 0\<rparr>]) statics_init)
     = [(OUTSIDE_LIMIT, 1), (OUTSIDE_LIMIT, 1), (OUTSIDE_LIMIT, 1)]"
  using constant_high_counts_once [of TempHigh "environmentConfig_init\<lparr>highEnable := True\<rparr>"
      statics_init
      "[\<lparr>Temperature = Finite 50 0, Humidity = Finite 40 0\<rparr>, \<lparr>Temperature = Finite 50 0, Humidity = Finite 41 0\<rparr>,
        \<lparr>Temperature = Finite 50 0, Humidity = Finite 42 0\<rparr>]" "Finite 50 0"]
  by (simp add: double_defs statics_init_def environmentConfig_init_def ExternalTemperatureHighDefault_def
        numeral_3_eq_3)

section \<open>The event counter\<close>

text \<open>
  C9. The claim is that the event counter never decreases across evaluate steps and
  changes by at most one per step. The counter is a \<^verbatim>\<open>size_t\<close> and \<^verbatim>\<open>highEvents++\<close>
  wraps: from \<open>2 ^ 32 - 1\<close> a counted crossing takes it to 0.
\<close>

theorem counter_wraps_counterexample:
  "chan_events TempHigh
     (evaluate_user_environment (environmentConfig_init\<lparr>highEnable := True\<rparr>)
        \<lparr>Temperature = Finite 46 0, Humidity = Finite 50 0\<rparr> (statics_init\<lparr>highEvents := 0xFFFFFFFF\<rparr>))
     < chan_events TempHigh (statics_init\<lparr>highEvents := 0xFFFFFFFF\<rparr>)"
  by (simp add: double_defs evaluate_events crossed_def evaluate_user_environment_def
        evaluate_high_temperature_def high_temperature_normal_def evaluate_low_temperature_def
        evaluate_high_humidity_def evaluate_low_humidity_def statics_init_def
        environmentConfig_init_def ExternalTemperatureHighDefault_def)

text \<open>
  C9, amended. One evaluate step adds to the counter, modulo \<open>2 ^ 32\<close>, a delta in
  \<open>{0, 1}\<close> that is a function of the monitor's state, the reading and the configuration:
  1 exactly when the channel is enabled, the state is \<^verbatim>\<open>NORMAL\<close> (or \<^verbatim>\<open>UNKNOWN\<close>) and
  the reading is at or beyond the threshold. Unless the counter is \<open>2 ^ 32 - 1\<close>, the step
  does not decrease it and raises it by at most one; and over a run of evaluate steps that
  cannot reach \<open>2 ^ 32\<close> the counter does not decrease.
\<close>

theorem counter_step_delta:
  "chan_events ch (evaluate_user_environment cfg e s)
     = chan_events ch s
       + of_bool (cfg_enable ch cfg \<and> (chan_state ch s = NORMAL \<or> chan_state ch s = UNKNOWN) \<and>
                  (if is_high ch then dge (reading ch e) (cfg_threshold ch cfg)
                   else dle (reading ch e) (cfg_threshold ch cfg))) \<and>
   (chan_events ch s \<noteq> - 1 \<longrightarrow>
      unat (chan_events ch s) \<le> unat (chan_events ch (evaluate_user_environment cfg e s)) \<and>
      unat (chan_events ch (evaluate_user_environment cfg e s)) \<le> unat (chan_events ch s) + 1) \<and>
   (unat (chan_events ch s) + length steps < 2 ^ 32 \<longrightarrow>
      chan_events ch s \<le> chan_events ch (run steps s))"
proof -
  define d where "d \<longleftrightarrow> cfg_enable ch cfg \<and> (chan_state ch s = NORMAL \<or> chan_state ch s = UNKNOWN) \<and>
            (if is_high ch then dge (reading ch e) (cfg_threshold ch cfg)
             else dle (reading ch e) (cfg_threshold ch cfg))"
  have "chan_monitor ch (evaluate_user_environment cfg e s)
      = monitor_step (is_high ch) (cfg_enable ch cfg) (cfg_threshold ch cfg)
          (cfg_hysteresis ch cfg) (reading ch e) (chan_state ch s, chan_events ch s, chan_latch ch s)"
    using evaluate_monitor [of ch cfg e s] by (simp only: chan_monitor_def)
  then have delta: "chan_events ch (evaluate_user_environment cfg e s)
      = chan_events ch s + of_bool d"
    unfolding d_def
    by (cases "chan_state ch s") (auto simp: chan_monitor_def split: if_splits)
  have one: "unat (chan_events ch s) \<le> unat (chan_events ch (evaluate_user_environment cfg e s)) \<and>
      unat (chan_events ch (evaluate_user_environment cfg e s)) \<le> unat (chan_events ch s) + 1"
    if "chan_events ch s \<noteq> - 1"
  proof (cases d)
    case True
    have "1 + chan_events ch s \<noteq> 0"
      using that max_word_wrap [of "chan_events ch s"] by (auto simp: add.commute)
    then have "unat (chan_events ch s + 1) = unat (chan_events ch s) + 1"
      using unatSuc [of "chan_events ch s"] by (simp add: add.commute)
    with True show ?thesis by (simp add: delta)
  next
    case False
    then show ?thesis by (simp add: delta)
  qed
  have many: "chan_events ch s \<le> chan_events ch (run steps s)"
    if "unat (chan_events ch s) + length steps < 2 ^ 32"
  proof -
    have "unat (chan_events ch s) + crossings ch steps s < 2 ^ 32"
      using that crossings_le [of ch steps s] by simp
    then have "unat (chan_events ch s + of_nat (crossings ch steps s))
        = unat (chan_events ch s) + crossings ch steps s"
      by (simp add: unat_word_ariths unat_of_nat)
    then show ?thesis
      by (simp add: run_events word_le_nat_alt)
  qed
  from delta one many show ?thesis unfolding d_def by blast
qed

theorem counter_step_delta_witness:
  "chan_events TempHigh
     (evaluate_user_environment (environmentConfig_init\<lparr>highEnable := True\<rparr>)
        \<lparr>Temperature = Finite 46 0, Humidity = Finite 50 0\<rparr> (statics_init\<lparr>highEvents := 7\<rparr>)) = 8 \<and>
   unat (chan_events TempHigh
     (evaluate_user_environment (environmentConfig_init\<lparr>highEnable := True\<rparr>)
        \<lparr>Temperature = Finite 46 0, Humidity = Finite 50 0\<rparr> (statics_init\<lparr>highEvents := 7\<rparr>))) \<le> 8 \<and>
   7 \<le> chan_events TempHigh
     (run [(environmentConfig_init\<lparr>highEnable := True\<rparr>, \<lparr>Temperature = Finite 46 0, Humidity = Finite 50 0\<rparr>),
           (environmentConfig_init\<lparr>highEnable := True\<rparr>, \<lparr>Temperature = Finite 44 0, Humidity = Finite 50 0\<rparr>)]
        (statics_init\<lparr>highEvents := 7\<rparr>))"
  using counter_step_delta [of TempHigh "environmentConfig_init\<lparr>highEnable := True\<rparr>"
      "\<lparr>Temperature = Finite 46 0, Humidity = Finite 50 0\<rparr>" "statics_init\<lparr>highEvents := 7\<rparr>"
      "[(environmentConfig_init\<lparr>highEnable := True\<rparr>, \<lparr>Temperature = Finite 46 0, Humidity = Finite 50 0\<rparr>),
        (environmentConfig_init\<lparr>highEnable := True\<rparr>, \<lparr>Temperature = Finite 44 0, Humidity = Finite 50 0\<rparr>)]"]
  by (simp add: double_defs statics_init_def environmentConfig_init_def ExternalTemperatureHighDefault_def)

section \<open>The latch flag and the state\<close>

text \<open>
  C10. In every state reached from the initial statics (state \<^verbatim>\<open>NORMAL\<close>, latch false)
  by evaluate steps under any readings and configurations, and also when accessor calls
  are interleaved with them, every monitor's latch flag is true if and only if its state
  is \<^verbatim>\<open>OUTSIDE_LIMIT\<close> or \<^verbatim>\<open>INSIDE_LIMIT\<close>; the state is never \<^verbatim>\<open>UNKNOWN\<close>, so the
  latch is never true in \<^verbatim>\<open>NORMAL\<close> and never false outside \<^verbatim>\<open>NORMAL\<close>.
\<close>

theorem latch_iff_outside_or_inside:
  "chan_latch ch (exec cs statics_init)
     = (chan_state ch (exec cs statics_init) = OUTSIDE_LIMIT \<or>
        chan_state ch (exec cs statics_init) = INSIDE_LIMIT) \<and>
   chan_state ch (exec cs statics_init) \<noteq> UNKNOWN \<and>
   chan_latch ch (run steps statics_init)
     = (chan_state ch (run steps statics_init) = OUTSIDE_LIMIT \<or>
        chan_state ch (run steps statics_init) = INSIDE_LIMIT) \<and>
   chan_state ch (run steps statics_init) \<noteq> UNKNOWN"
  using latch_inv_exec [OF latch_inv_init, of ch cs] latch_inv_run [OF latch_inv_init, of ch steps]
  by (simp add: latch_inv_def)

section \<open>What the accessors report\<close>

text \<open>
  C3. The claim is that with latch mode true the scenario of two crossings between two
  accessor calls makes the second call return 1. After the readings 46, 44, 40, 46, 44, 40
  (two crossings, the channel back in \<^verbatim>\<open>NORMAL\<close> after each) the latch is clear and the
  call returns 0.
\<close>

theorem latch_report_after_return_counterexample:
  "crossings TempHigh
     [(environmentConfig_init\<lparr>highEnable := True\<rparr>, \<lparr>Temperature = Finite 46 0, Humidity = Finite 50 0\<rparr>),
      (environmentConfig_init\<lparr>highEnable := True\<rparr>, \<lparr>Temperature = Finite 44 0, Humidity = Finite 50 0\<rparr>),
      (environmentConfig_init\<lparr>highEnable := True\<rparr>, \<lparr>Temperature = Finite 40 0, Humidity = Finite 50 0\<rparr>),
      (environmentConfig_init\<lparr>highEnable := True\<rparr>, \<lparr>Temperature = Finite 46 0, Humidity = Finite 50 0\<rparr>),
      (environmentConfig_init\<lparr>highEnable := True\<rparr>, \<lparr>Temperature = Finite 44 0, Humidity = Finite 50 0\<rparr>),
      (environmentConfig_init\<lparr>highEnable := True\<rparr>, \<lparr>Temperature = Finite 40 0, Humidity = Finite 50 0\<rparr>)]
     (snd (environment_high_temperature_events
             (environmentConfig_init\<lparr>highEnable := True\<rparr>) statics_init)) = 2 \<and>
   ConfigData.highLatch (environmentConfig_init\<lparr>highEnable := True\<rparr>) \<and>
   fst (environment_high_temperature_events (environmentConfig_init\<lparr>highEnable := True\<rparr>)
     (run
       [(environmentConfig_init\<lparr>highEnable := True\<rparr>, \<lparr>Temperature = Finite 46 0, Humidity = Finite 50 0\<rparr>),
        (environmentConfig_init\<lparr>highEnable := True\<rparr>, \<lparr>Temperature = Finite 44 0, Humidity = Finite 50 0\<rparr>),
        (environmentConfig_init\<lparr>highEnable := True\<rparr>, \<lparr>Temperature = Finite 40 0, Humidity = Finite 50 0\<rparr>),
        (environmentConfig_init\<lparr>highEnable := True\<rparr>, \<lparr>Temperature = Finite 46 0, Humidity = Finite 50 0\<rparr>),
        (environmentConfig_init\<lparr>highEnable := True\<rparr>, \<lparr>Temperature = Finite 44 0, Humidity = Finite 50 0\<rparr>),
        (environmentConfig_init\<lparr>highEnable := True\<rparr>, \<lparr>Temperature = Finite 40 0, Humidity = Finite 50 0\<rparr>)]
       (snd (environment_high_temperature_events
               (environmentConfig_init\<lparr>highEnable := True\<rparr>) statics_init)))) \<noteq> 1"
  by (simp add: double_defs crossed_def evaluate_user_environment_def
        evaluate_high_temperature_def high_temperature_normal_def evaluate_low_temperature_def
        evaluate_high_humidity_def evaluate_low_humidity_def
        environment_high_temperature_events_def statics_init_def
        environmentConfig_init_def ExternalTemperatureHighDefault_def
        ExternalTemperatureHysteresisDefault_def)

text \<open>
  C3, amended. Every event accessor computes the counter minus the last snapshot, stores
  the counter as the new snapshot (and writes nothing else of the monitor), and returns
  the latch flag as 0 or 1 when the channel's latch mode is true, the difference when it
  is false. So, between a first call (leaving \<open>s1\<close>) and a second call (on \<open>s2\<close>), with
  latch mode false the second call returns the number of crossings from \<^verbatim>\<open>NORMAL\<close> to
  \<^verbatim>\<open>OUTSIDE_LIMIT\<close> in between (modulo \<open>2 ^ 32\<close>): 2 for two crossings. With latch mode
  true, in a run of the program from its initial statics, the second call returns 1 if the
  channel is not in \<^verbatim>\<open>NORMAL\<close> at that call and 0 if it is, whatever the number of
  crossings; and so does a later call (on \<open>s4\<close>): 0 once the channel has returned to
  \<^verbatim>\<open>NORMAL\<close>.
\<close>

theorem accessor_reports:
  assumes "s1 = snd (events_accessor ch cfg1 s0)"
    and "s2 = run steps s1"
    and "s3 = snd (events_accessor ch cfg2 s2)"
    and "s4 = run steps' s3"
  shows
    "fst (events_accessor ch cfg1 s0)
       = (if cfg_latch ch cfg1 then of_bool (chan_latch ch s0)
          else chan_events ch s0 - chan_last ch s0) \<and>
     chan_last ch s1 = chan_events ch s0 \<and>
     chan_monitor ch s1 = chan_monitor ch s0 \<and>
     (\<not> cfg_latch ch cfg2 \<longrightarrow>
        fst (events_accessor ch cfg2 s2) = of_nat (crossings ch steps s1)) \<and>
     (crossings ch steps s1 = 2 \<and> \<not> cfg_latch ch cfg2 \<longrightarrow>
        fst (events_accessor ch cfg2 s2) = 2) \<and>
     (s0 = exec cs statics_init \<and> cfg_latch ch cfg2 \<longrightarrow>
        fst (events_accessor ch cfg2 s2) = of_bool (chan_state ch s2 \<noteq> NORMAL)) \<and>
     (s0 = exec cs statics_init \<and> cfg_latch ch cfg3 \<longrightarrow>
        fst (events_accessor ch cfg3 s4) = of_bool (chan_state ch s4 \<noteq> NORMAL))"
proof -
  have ret: "fst (events_accessor ch cfg1 s0)
       = (if cfg_latch ch cfg1 then of_bool (chan_latch ch s0)
          else chan_events ch s0 - chan_last ch s0)"
    by (rule accessor_value)
  have last1: "chan_last ch s1 = chan_events ch s0"
    unfolding assms(1) by (simp add: accessor_last)
  have mon1: "chan_monitor ch s1 = chan_monitor ch s0"
    unfolding assms(1) by (rule accessor_monitor)
  then have events1: "chan_events ch s1 = chan_events ch s0"
    by (simp add: chan_monitor_def)
  have count: "fst (events_accessor ch cfg2 s2) = of_nat (crossings ch steps s1)"
    if "\<not> cfg_latch ch cfg2"
  proof -
    have "chan_events ch s2 = chan_events ch s0 + of_nat (crossings ch steps s1)"
      unfolding assms(2) run_events using events1 by simp
    moreover have "chan_last ch s2 = chan_events ch s0"
      unfolding assms(2) run_last by (rule last1)
    ultimately show ?thesis
      using that by (simp add: accessor_value)
  qed
  have twice: "fst (events_accessor ch cfg2 s2) = 2"
    if "crossings ch steps s1 = 2" "\<not> cfg_latch ch cfg2"
    using count [OF that(2)] that(1) by simp
  have inv2: "latch_inv ch s2" and inv4: "latch_inv ch s4" if "s0 = exec cs statics_init"
  proof -
    have "latch_inv ch s0"
      unfolding that by (rule latch_inv_exec [OF latch_inv_init])
    then have "latch_inv ch s1"
      unfolding assms(1) by (simp only: latch_inv_accessor)
    then show "latch_inv ch s2"
      unfolding assms(2) by (rule latch_inv_run)
    then have "latch_inv ch s3"
      unfolding assms(3) by (simp only: latch_inv_accessor)
    then show "latch_inv ch s4"
      unfolding assms(4) by (rule latch_inv_run)
  qed
  have second: "fst (events_accessor ch cfg2 s2) = of_bool (chan_state ch s2 \<noteq> NORMAL)"
    if "s0 = exec cs statics_init" "cfg_latch ch cfg2"
    using inv2 [OF that(1)] that(2)
    by (cases "chan_state ch s2") (simp_all add: accessor_value latch_inv_def)
  have later: "fst (events_accessor ch cfg3 s4) = of_bool (chan_state ch s4 \<noteq> NORMAL)"
    if "s0 = exec cs statics_init" "cfg_latch ch cfg3"
    using inv4 [OF that(1)] that(2)
    by (cases "chan_state ch s4") (simp_all add: accessor_value latch_inv_def)
  from ret last1 mon1 count twice second later show ?thesis by blast
qed

theorem accessor_reports_witness:
  "fst (environment_high_temperature_events
          (environmentConfig_init\<lparr>highEnable := True, ConfigData.highLatch := False\<rparr>)
     (run [(environmentConfig_init\<lparr>highEnable := True\<rparr>, \<lparr>Temperature = Finite 46 0, Humidity = Finite 50 0\<rparr>),
           (environmentConfig_init\<lparr>highEnable := True\<rparr>, \<lparr>Temperature = Finite 44 0, Humidity = Finite 50 0\<rparr>),
           (environmentConfig_init\<lparr>highEnable := True\<rparr>, \<lparr>Temperature = Finite 40 0, Humidity = Finite 50 0\<rparr>),
           (environmentConfig_init\<lparr>highEnable := True\<rparr>, \<lparr>Temperature = Finite 46 0, Humidity = Finite 50 0\<rparr>)]
        (snd (environment_high_temperature_events
                (environmentConfig_init\<lparr>highEnable := True\<rparr>) statics_init)))) = 2 \<and>
   fst (environment_high_temperature_events (environmentConfig_init\<lparr>highEnable := True\<rparr>)
     (run [(environmentConfig_init\<lparr>highEnable := True\<rparr>, \<lparr>Temperature = Finite 46 0, Humidity = Finite 50 0\<rparr>),
           (environmentConfig_init\<lparr>highEnable := True\<rparr>, \<lparr>Temperature = Finite 44 0, Humidity = Finite 50 0\<rparr>),
           (environmentConfig_init\<lparr>highEnable := True\<rparr>, \<lparr>Temperature = Finite 40 0, Humidity = Finite 50 0\<rparr>),
           (environmentConfig_init\<lparr>highEnable := True\<rparr>, \<lparr>Temperature = Finite 46 0, Humidity = Finite 50 0\<rparr>)]
        (snd (environment_high_temperature_events
                (environmentConfig_init\<lparr>highEnable := True\<rparr>) statics_init)))) = 1 \<and>
   fst (environment_high_temperature_events (environmentConfig_init\<lparr>highEnable := True\<rparr>)
     (run [(environmentConfig_init\<lparr>highEnable := True\<rparr>, \<lparr>Temperature = Finite 44 0, Humidity = Finite 50 0\<rparr>),
           (environmentConfig_init\<lparr>highEnable := True\<rparr>, \<lparr>Temperature = Finite 40 0, Humidity = Finite 50 0\<rparr>)]
        (snd (environment_high_temperature_events (environmentConfig_init\<lparr>highEnable := True\<rparr>)
     (run [(environmentConfig_init\<lparr>highEnable := True\<rparr>, \<lparr>Temperature = Finite 46 0, Humidity = Finite 50 0\<rparr>),
           (environmentConfig_init\<lparr>highEnable := True\<rparr>, \<lparr>Temperature = Finite 44 0, Humidity = Finite 50 0\<rparr>),
           (environmentConfig_init\<lparr>highEnable := True\<rparr>, \<lparr>Temperature = Finite 40 0, Humidity = Finite 50 0\<rparr>),
           (environmentConfig_init\<lparr>highEnable := True\<rparr>, \<lparr>Temperature = Finite 46 0, Humidity = Finite 50 0\<rparr>)]
        (snd (environment_high_temperature_events
                (environmentConfig_init\<lparr>highEnable := True\<rparr>) statics_init))))))) = 0"
proof -
  let ?cfg = "environmentConfig_init\<lparr>highEnable := True\<rparr>"
  let ?cfgN = "environmentConfig_init\<lparr>highEnable := True, ConfigData.highLatch := False\<rparr>"
  let ?steps = "[(?cfg, \<lparr>Temperature = Finite 46 0, Humidity = Finite 50 0\<rparr>),
                 (?cfg, \<lparr>Temperature = Finite 44 0, Humidity = Finite 50 0\<rparr>),
                 (?cfg, \<lparr>Temperature = Finite 40 0, Humidity = Finite 50 0\<rparr>),
                 (?cfg, \<lparr>Temperature = Finite 46 0, Humidity = Finite 50 0\<rparr>)]"
  let ?steps' = "[(?cfg, \<lparr>Temperature = Finite 44 0, Humidity = Finite 50 0\<rparr>),
                  (?cfg, \<lparr>Temperature = Finite 40 0, Humidity = Finite 50 0\<rparr>)]"
  let ?s1 = "snd (events_accessor TempHigh ?cfg statics_init)"
  let ?s2 = "run ?steps ?s1"
  let ?s4 = "run ?steps' (snd (events_accessor TempHigh ?cfg ?s2))"
  have two: "crossings TempHigh ?steps ?s1 = 2"
    and outside: "chan_state TempHigh ?s2 \<noteq> NORMAL"
    and returned: "chan_state TempHigh ?s4 = NORMAL"
    by (simp_all add: double_defs crossed_def evaluate_user_environment_def
          evaluate_high_temperature_def high_temperature_normal_def evaluate_low_temperature_def
          evaluate_high_humidity_def evaluate_low_humidity_def
          environment_high_temperature_events_def statics_init_def
          environmentConfig_init_def ExternalTemperatureHighDefault_def
          ExternalTemperatureHysteresisDefault_def)
  have modes: "\<not> cfg_latch TempHigh ?cfgN" "cfg_latch TempHigh ?cfg"
    by (simp_all add: environmentConfig_init_def)
  have start: "statics_init = exec [] statics_init"
    by simp
  from two outside returned modes start
    accessor_reports [of ?s1 TempHigh ?cfg statics_init ?s2 ?steps _ ?cfgN _ ?steps' "[]" ?cfg,
      OF refl refl refl refl]
    accessor_reports [of ?s1 TempHigh ?cfg statics_init ?s2 ?steps _ ?cfg ?s4 ?steps' "[]" ?cfg,
      OF refl refl refl refl]
  show ?thesis
    by simp
qed

text \<open>
  C7. For every channel, of two accessor calls with no evaluate step in between, the
  second returns 0 when latch mode is false; when latch mode is true it returns the latch
  flag (as 0 or 1), which the first call has not changed.
\<close>

theorem accessor_twice:
  "(\<not> cfg_latch ch cfg2 \<longrightarrow>
      fst (events_accessor ch cfg2 (snd (events_accessor ch cfg1 s))) = 0) \<and>
   (cfg_latch ch cfg2 \<longrightarrow>
      fst (events_accessor ch cfg2 (snd (events_accessor ch cfg1 s))) = of_bool (chan_latch ch s) \<and>
      chan_latch ch (snd (events_accessor ch cfg1 s)) = chan_latch ch s)"
  using accessor_monitor [of ch ch cfg1 s]
  by (simp add: accessor_value accessor_last chan_monitor_def)

theorem accessor_twice_witness:
  "fst (environment_high_temperature_events (environmentConfig_init\<lparr>ConfigData.highLatch := False\<rparr>)
     (snd (environment_high_temperature_events (environmentConfig_init\<lparr>ConfigData.highLatch := False\<rparr>)
        (statics_init\<lparr>highState := OUTSIDE_LIMIT, highEvents := 1, highLatch := True\<rparr>)))) = 0 \<and>
   fst (environment_high_temperature_events environmentConfig_init
     (snd (environment_high_temperature_events environmentConfig_init
        (statics_init\<lparr>highState := OUTSIDE_LIMIT, highEvents := 1, highLatch := True\<rparr>)))) = 1"
  using
    accessor_twice [of TempHigh "environmentConfig_init\<lparr>ConfigData.highLatch := False\<rparr>"
      "environmentConfig_init\<lparr>ConfigData.highLatch := False\<rparr>"
      "statics_init\<lparr>highState := OUTSIDE_LIMIT, highEvents := 1, highLatch := True\<rparr>"]
    accessor_twice [of TempHigh environmentConfig_init environmentConfig_init
      "statics_init\<lparr>highState := OUTSIDE_LIMIT, highEvents := 1, highLatch := True\<rparr>"]
  by (simp add: environmentConfig_init_def statics_init_def)

section \<open>End to end\<close>

text \<open>
  C5. The claim is that, from the default configuration with temperature-high enabled
  (threshold 45, hysteresis 5, latch mode true), the accessor called once after the
  readings 30, 46, 44, 40, 39 returns 1. The reading 40 is at \<open>45 - 5\<close>: it clears the
  latch and takes the monitor back to \<^verbatim>\<open>NORMAL\<close>, so in latch mode the call returns 0.
\<close>

theorem end_to_end_latch_counterexample:
  "fst (environment_high_temperature_events (environmentConfig_init\<lparr>highEnable := True\<rparr>)
     (run [(environmentConfig_init\<lparr>highEnable := True\<rparr>, \<lparr>Temperature = Finite 30 0, Humidity = Finite 50 0\<rparr>),
           (environmentConfig_init\<lparr>highEnable := True\<rparr>, \<lparr>Temperature = Finite 46 0, Humidity = Finite 50 0\<rparr>),
           (environmentConfig_init\<lparr>highEnable := True\<rparr>, \<lparr>Temperature = Finite 44 0, Humidity = Finite 50 0\<rparr>),
           (environmentConfig_init\<lparr>highEnable := True\<rparr>, \<lparr>Temperature = Finite 40 0, Humidity = Finite 50 0\<rparr>),
           (environmentConfig_init\<lparr>highEnable := True\<rparr>, \<lparr>Temperature = Finite 39 0, Humidity = Finite 50 0\<rparr>)]
        statics_init)) \<noteq> 1 \<and>
   ConfigData.highLatch (environmentConfig_init\<lparr>highEnable := True\<rparr>)"
proof -
  have "chan_monitor TempHigh
     (run [(environmentConfig_init\<lparr>highEnable := True\<rparr>, \<lparr>Temperature = Finite 30 0, Humidity = Finite 50 0\<rparr>),
           (environmentConfig_init\<lparr>highEnable := True\<rparr>, \<lparr>Temperature = Finite 46 0, Humidity = Finite 50 0\<rparr>),
           (environmentConfig_init\<lparr>highEnable := True\<rparr>, \<lparr>Temperature = Finite 44 0, Humidity = Finite 50 0\<rparr>),
           (environmentConfig_init\<lparr>highEnable := True\<rparr>, \<lparr>Temperature = Finite 40 0, Humidity = Finite 50 0\<rparr>),
           (environmentConfig_init\<lparr>highEnable := True\<rparr>, \<lparr>Temperature = Finite 39 0, Humidity = Finite 50 0\<rparr>)]
        statics_init) = (NORMAL, 1, False)"
    unfolding run_monitor
    by (simp add: double_defs chan_monitor_def statics_init_def environmentConfig_init_def
          ExternalTemperatureHighDefault_def ExternalTemperatureHysteresisDefault_def)
  then show ?thesis
    using accessor_value [of TempHigh]
    by (simp add: chan_monitor_def environmentConfig_init_def)
qed

text \<open>
  C5, amended. From the initial statics and the default configuration with
  temperature-high enabled, whatever the humidity readings and the latch mode \<open>m\<close>, the
  temperature readings 30, 46, 44, 40, 39 give the temperature-high counter the values
  0, 1, 1, 1, 1, and one accessor call at the end returns 0 when latch mode is true and 1
  when it is false.
\<close>

theorem end_to_end_temperature_high:
  "map (chan_events TempHigh)
     (trace [(environmentConfig_init\<lparr>highEnable := True, ConfigData.highLatch := m\<rparr>,
                \<lparr>Temperature = Finite 30 0, Humidity = h1\<rparr>),
             (environmentConfig_init\<lparr>highEnable := True, ConfigData.highLatch := m\<rparr>,
                \<lparr>Temperature = Finite 46 0, Humidity = h2\<rparr>),
             (environmentConfig_init\<lparr>highEnable := True, ConfigData.highLatch := m\<rparr>,
                \<lparr>Temperature = Finite 44 0, Humidity = h3\<rparr>),
             (environmentConfig_init\<lparr>highEnable := True, ConfigData.highLatch := m\<rparr>,
                \<lparr>Temperature = Finite 40 0, Humidity = h4\<rparr>),
             (environmentConfig_init\<lparr>highEnable := True, ConfigData.highLatch := m\<rparr>,
                \<lparr>Temperature = Finite 39 0, Humidity = h5\<rparr>)]
        statics_init) = [0, 1, 1, 1, 1] \<and>
   fst (environment_high_temperature_events
          (environmentConfig_init\<lparr>highEnable := True, ConfigData.highLatch := m\<rparr>)
     (run [(environmentConfig_init\<lparr>highEnable := True, ConfigData.highLatch := m\<rparr>,
              \<lparr>Temperature = Finite 30 0, Humidity = h1\<rparr>),
           (environmentConfig_init\<lparr>highEnable := True, ConfigData.highLatch := m\<rparr>,
              \<lparr>Temperature = Finite 46 0, Humidity = h2\<rparr>),
           (environmentConfig_init\<lparr>highEnable := True, ConfigData.highLatch := m\<rparr>,
              \<lparr>Temperature = Finite 44 0, Humidity = h3\<rparr>),
           (environmentConfig_init\<lparr>highEnable := True, ConfigData.highLatch := m\<rparr>,
              \<lparr>Temperature = Finite 40 0, Humidity = h4\<rparr>),
           (environmentConfig_init\<lparr>highEnable := True, ConfigData.highLatch := m\<rparr>,
              \<lparr>Temperature = Finite 39 0, Humidity = h5\<rparr>)]
        statics_init)) = (if m then 0 else 1)"
  (is "map _ (trace ?steps _) = _ \<and> _")
proof -
  have tr: "map (chan_monitor TempHigh) (trace ?steps statics_init)
      = [(NORMAL, 0, False), (OUTSIDE_LIMIT, 1, True), (INSIDE_LIMIT, 1, True),
         (NORMAL, 1, False), (NORMAL, 1, False)]"
    unfolding trace_monitor
    by (simp add: double_defs chan_monitor_def statics_init_def environmentConfig_init_def
          ExternalTemperatureHighDefault_def ExternalTemperatureHysteresisDefault_def)
  have "map (chan_events TempHigh) (trace ?steps statics_init)
      = map (fst \<circ> snd) (map (chan_monitor TempHigh) (trace ?steps statics_init))"
    unfolding map_map by (rule map_cong) (simp_all add: chan_monitor_def)
  then have counters: "map (chan_events TempHigh) (trace ?steps statics_init) = [0, 1, 1, 1, 1]"
    unfolding tr by simp
  define t where "t = run ?steps statics_init"
  have "chan_monitor TempHigh t = (NORMAL, 1, False)"
    unfolding t_def run_monitor
    by (simp add: double_defs chan_monitor_def statics_init_def environmentConfig_init_def
          ExternalTemperatureHighDefault_def ExternalTemperatureHysteresisDefault_def)
  then have fin: "chan_events TempHigh t = 1" "chan_latch TempHigh t = False"
    by (simp_all add: chan_monitor_def)
  have "chan_last TempHigh t = 0"
    unfolding t_def run_last by (simp add: statics_init_def)
  with fin have "fst (events_accessor TempHigh
      (environmentConfig_init\<lparr>highEnable := True, ConfigData.highLatch := m\<rparr>) t)
      = (if m then 0 else 1)"
    unfolding accessor_value by simp
  then have "fst (environment_high_temperature_events
      (environmentConfig_init\<lparr>highEnable := True, ConfigData.highLatch := m\<rparr>)
      (run ?steps statics_init)) = (if m then 0 else 1)"
    unfolding t_def by (simp only: events_accessor.simps)
  with counters show ?thesis by blast
qed

end
